theory Spec2Isabelle
  imports Main "HOL-Library.Sublist"
begin

text \<open>
  A model of \<open>MySQL_MCP_Server-v3.py\<close>: the \<open>MySQLManager\<close> with its lazily created
  connection pool, the seven operations offered to the dispatcher, and the connectivity
  test of the start-up. Definitions follow the source function by function; the
  properties proved are those of the specification's claims C1 to C10.
\<close>

section \<open>Python strings and values\<close>

text \<open>
  A Python \<open>str\<close> is a sequence of Unicode code points, so \<open>len\<close> is the length of
  the list. ASCII literals of the source are written \<open>lit ''...''\<close>; the Chinese message
  texts of the source are given by their code points.
\<close>

type_synonym pystr = "nat list"

definition lit :: "string \<Rightarrow> pystr" where
  "lit s = map of_char s"

text \<open>\<open>sep.join(xs)\<close>\<close>

fun join :: "pystr \<Rightarrow> pystr list \<Rightarrow> pystr" where
  "join sep [] = []"
| "join sep [x] = x"
| "join sep (x # y # ys) = x @ sep @ join sep (y # ys)"

text \<open>\<open>str(n)\<close> for an integer: decimal digits, a minus sign for a negative number.\<close>

fun digits :: "nat \<Rightarrow> pystr" where
  "digits n = (if n < 10 then [48 + n] else digits (n div 10) @ [48 + n mod 10])"

declare digits.simps [simp del]

definition str_int :: "int \<Rightarrow> pystr" where
  "str_int i = (if i < 0 then 45 # digits (nat (- i)) else digits (nat i))"

text \<open>
  The values that cross the driver's interface (a column of a fetched row, a bound
  parameter) and that \<open>json.dumps\<close> is given. \<open>PyFloat r\<close> is a float with
  \<open>repr\<close> text \<open>r\<close>. \<open>PyOther tn s\<close> is an object of any other type (\<open>datetime\<close>,
  \<open>bytes\<close>, \<open>Decimal\<close>, ...), with type name \<open>tn\<close> and \<open>str()\<close> text \<open>s\<close>.
\<close>

datatype pyval =
    PyNone
  | PyBool bool
  | PyInt int
  | PyFloat pystr
  | PyStr pystr
  | PyOther pystr pystr

text \<open>\<open>str(v)\<close>, as an f-string formats a value.\<close>

fun py_str :: "pyval \<Rightarrow> pystr" where
  "py_str PyNone = lit ''None''"
| "py_str (PyBool b) = (if b then lit ''True'' else lit ''False'')"
| "py_str (PyInt i) = str_int i"
| "py_str (PyFloat r) = r"
| "py_str (PyStr s) = s"
| "py_str (PyOther tn s) = s"

text \<open>
  \<open>v == n\<close> for an integer \<open>n\<close>: an int by value, a bool as 0 or 1, a float by value (the
  float equal to 1 is the one whose \<open>repr\<close> is \<open>1.0\<close>; only \<open>n = 1\<close> is used). A
  \<open>PyOther\<close> object is taken to be unequal to every int, which is exact for all of them
  but a \<open>Decimal\<close> of integral value.
\<close>

fun py_eq_one :: "pyval \<Rightarrow> bool" where
  "py_eq_one (PyInt i) = (i = 1)"
| "py_eq_one (PyBool b) = b"
| "py_eq_one (PyFloat r) = (r = lit ''1.0'')"
| "py_eq_one _ = False"

subsection \<open>Exceptions\<close>

text \<open>
  An exception carries its \<open>str(e)\<close> text. \<open>Exception msg\<close> is an instance of
  \<open>Exception\<close> (every error of the driver is one); \<open>BaseException msg\<close> is an instance
  of \<open>BaseException\<close> outside \<open>Exception\<close> (\<open>asyncio.CancelledError\<close>,
  \<open>KeyboardInterrupt\<close>, \<open>SystemExit\<close>), which \<open>except Exception\<close> does not catch.
\<close>

datatype exn = Exception pystr | BaseException pystr

datatype 'a res = Return 'a | Raise exn

subsection \<open>\<open>json.dumps(..., ensure_ascii=False, indent=2)\<close>\<close>

definition hex_digit :: "nat \<Rightarrow> nat" where
  "hex_digit d = (if d < 10 then 48 + d else 87 + d)"

text \<open>
  The encoder's escape table: the quote (34) and the backslash (92) get a backslash,
  the control characters their letter or \<open>\u00XX\<close>; with \<open>ensure_ascii=False\<close> every
  other code point stands for itself.
\<close>

definition json_escape_char :: "nat \<Rightarrow> pystr" where
  "json_escape_char c =
     (if c = 34 then [92, 34]
      else if c = 92 then [92, 92]
      else if c = 8 then 92 # lit ''b''
      else if c = 12 then 92 # lit ''f''
      else if c = 10 then 92 # lit ''n''
      else if c = 13 then 92 # lit ''r''
      else if c = 9 then 92 # lit ''t''
      else if c < 32 then 92 # lit ''u00'' @ [hex_digit (c div 16), hex_digit (c mod 16)]
      else [c])"

definition json_string :: "pystr \<Rightarrow> pystr" where
  "json_string s = 34 # concat (map json_escape_char s) @ [34]"

text \<open>
  One value. \<open>dflt\<close> says whether \<open>default=str\<close> was given: with it an object JSON does
  not know is encoded as the string \<open>str(o)\<close>, without it the encoder raises
  \<open>TypeError\<close>.
\<close>

fun json_atom :: "bool \<Rightarrow> pyval \<Rightarrow> exn + pystr" where
  "json_atom dflt PyNone = Inr (lit ''null'')"
| "json_atom dflt (PyBool b) = Inr (if b then lit ''true'' else lit ''false'')"
| "json_atom dflt (PyInt i) = Inr (str_int i)"
| "json_atom dflt (PyFloat r) =
     Inr (if r = lit ''nan'' then lit ''NaN''
          else if r = lit ''inf'' then lit ''Infinity''
          else if r = lit ''-inf'' then lit ''-Infinity''
          else r)"
| "json_atom dflt (PyStr s) = Inr (json_string s)"
| "json_atom dflt (PyOther tn s) =
     (if dflt then Inr (json_string s)
      else Inl (Exception (lit ''Object of type '' @ tn @ lit '' is not JSON serializable'')))"

text \<open>A line break followed by the indentation of a nesting level (two spaces each).\<close>

definition newline_indent :: "nat \<Rightarrow> pystr" where
  "newline_indent level = 10 # replicate (2 * level) 32"

text \<open>The \<open>"key": value\<close> entries of a dict, in the dict's order.\<close>

fun json_items :: "bool \<Rightarrow> (pystr \<times> pyval) list \<Rightarrow> exn + pystr list" where
  "json_items dflt [] = Inr []"
| "json_items dflt ((k, v) # kvs) =
     (case json_atom dflt v of
        Inl e \<Rightarrow> Inl e
      | Inr s \<Rightarrow>
          (case json_items dflt kvs of
             Inl e \<Rightarrow> Inl e
           | Inr ss \<Rightarrow> Inr ((json_string k @ lit '': '' @ s) # ss)))"

definition json_dict :: "bool \<Rightarrow> nat \<Rightarrow> (pystr \<times> pyval) list \<Rightarrow> exn + pystr" where
  "json_dict dflt level kvs =
     (if kvs = [] then Inr (lit ''{}'')
      else
        (case json_items dflt kvs of
           Inl e \<Rightarrow> Inl e
         | Inr ss \<Rightarrow>
             Inr (lit ''{'' @ newline_indent (level + 1)
                  @ join (44 # newline_indent (level + 1)) ss
                  @ newline_indent level @ lit ''}'')))"

text \<open>A list of dicts at the top level: the rows of \<open>select_data\<close>.\<close>

fun json_dicts :: "bool \<Rightarrow> nat \<Rightarrow> (pystr \<times> pyval) list list \<Rightarrow> exn + pystr list" where
  "json_dicts dflt level [] = Inr []"
| "json_dicts dflt level (r # rs) =
     (case json_dict dflt level r of
        Inl e \<Rightarrow> Inl e
      | Inr s \<Rightarrow>
          (case json_dicts dflt level rs of
             Inl e \<Rightarrow> Inl e
           | Inr ss \<Rightarrow> Inr (s # ss)))"

definition json_list_of_dicts :: "bool \<Rightarrow> (pystr \<times> pyval) list list \<Rightarrow> exn + pystr" where
  "json_list_of_dicts dflt rows =
     (if rows = [] then Inr (lit ''[]'')
      else
        (case json_dicts dflt 1 rows of
           Inl e \<Rightarrow> Inl e
         | Inr ss \<Rightarrow>
             Inr (lit ''['' @ newline_indent 1
                  @ join (44 # newline_indent 1) ss
                  @ newline_indent 0 @ lit '']'')))"

section \<open>The driver and the manager\<close>

text \<open>
  The database driver (aiomysql) is outside the program. Pools and connections are
  identified by numbers. A \<open>driver\<close> gives, for one invocation of an operation, what
  each driver call does when it is made: raise, or return. Every theorem quantifies over
  all drivers, so over every behaviour of the database.
\<close>

type_synonym pool = nat
type_synonym conn = nat

record driver =
  create_pool_r :: "exn + pool"  \<comment> \<open>\<open>aiomysql.create_pool(...)\<close>\<close>
  acquire_r :: "exn + conn"  \<comment> \<open>\<open>pool.acquire()\<close>\<close>
  release_r :: "exn option"  \<comment> \<open>\<open>pool.release(conn)\<close>; \<open>None\<close>: no exception\<close>
  pool_close_r :: "exn option"  \<comment> \<open>\<open>pool.close()\<close>\<close>
  wait_closed_r :: "exn option"  \<comment> \<open>\<open>pool.wait_closed()\<close>\<close>
  cursor_r :: "exn option"  \<comment> \<open>entering \<open>async with conn.cursor(...)\<close>\<close>
  cursor_exit_r :: "exn option"  \<comment> \<open>leaving it (the cursor is closed)\<close>
  execute_r :: "exn + int"  \<comment> \<open>the first \<open>cursor.execute\<close>; \<open>cursor.rowcount\<close> after it\<close>
  execute2_r :: "exn + int"  \<comment> \<open>the second \<open>cursor.execute\<close>\<close>
  fetchone_r :: "exn + pyval list option"  \<comment> \<open>the first \<open>cursor.fetchone()\<close>: a tuple or \<open>None\<close>\<close>
  fetchone2_r :: "exn + pyval list option"  \<comment> \<open>the second \<open>cursor.fetchone()\<close>\<close>
  fetchall_r :: "exn + pyval list list"  \<comment> \<open>\<open>cursor.fetchall()\<close>: tuples\<close>
  fetchall_dict_r :: "exn + (pystr \<times> pyval) list list"  \<comment> \<open>the same of a \<open>DictCursor\<close>: dicts\<close>

text \<open>\<open>self.db_config\<close>, a dict with these seven keys.\<close>

record config =
  host :: pystr
  port :: int
  user :: pystr
  password :: pystr
  db :: pystr
  charset :: pystr
  autocommit :: bool

text \<open>
  The \<open>MySQLManager\<close> object. \<open>self._lock\<close> is free whenever one of the functions of
  this section starts and again when it ends; the interleaving of several
  \<open>get_connection\<close> calls has a section of its own below.
\<close>

record mgr =
  db_config :: config
  pool :: "pool option"

text \<open>The calls made to the driver, in the order they are made.\<close>

datatype event =
    CreatePool config "pool option"  \<comment> \<open>with the pool created, if one was\<close>
  | Acquire pool "conn option"  \<comment> \<open>with the connection handed out, if one was\<close>
  | Release pool conn
  | PoolClose pool
  | WaitClosed pool
  | CursorOpen conn
  | CursorClose conn
  | Execute conn pystr "pyval list option"  \<comment> \<open>the statement text and the bound parameters\<close>
  | Fetchone conn
  | Fetchall conn

text \<open>The connections a trace hands out, and those it gives back.\<close>

fun acquired :: "event list \<Rightarrow> conn list" where
  "acquired [] = []"
| "acquired (Acquire p (Some c) # t) = c # acquired t"
| "acquired (_ # t) = acquired t"

fun released :: "event list \<Rightarrow> conn list" where
  "released [] = []"
| "released (Release p c # t) = c # released t"
| "released (_ # t) = released t"

text \<open>A step that neither takes a connection from the pool nor gives one back.\<close>

definition no_pool_calls :: "'a res \<times> event list \<Rightarrow> bool" where
  "no_pool_calls x \<longleftrightarrow> acquired (snd x) = [] \<and> released (snd x) = []"

text \<open>The statements a trace hands to \<open>cursor.execute\<close>, each with its bound parameters.\<close>

fun executed :: "event list \<Rightarrow> (pystr \<times> pyval list option) list" where
  "executed [] = []"
| "executed (Execute c sql args # t) = (sql, args) # executed t"
| "executed (_ # t) = executed t"

text \<open>The calls of \<open>aiomysql.create_pool\<close> in a trace.\<close>

fun pool_creations :: "event list \<Rightarrow> nat" where
  "pool_creations [] = 0"
| "pool_creations (CreatePool cfg r # t) = Suc (pool_creations t)"
| "pool_creations (_ # t) = pool_creations t"

text \<open>\<open>get_config_info\<close> (lines 66-70): a copy of the configuration with the password masked.\<close>

definition get_config_info :: "config \<Rightarrow> config" where
  "get_config_info cfg =
     cfg\<lparr>password := (if password cfg \<noteq> [] then replicate (length (password cfg)) 42
                      else lit ''Empty'')\<rparr>"

text \<open>
  \<open>get_connection\<close> (lines 72-101). First the block under the lock: a pool is created
  when \<open>self.pool\<close> is not set; a failure is logged and raised again.
\<close>

definition ensure_pool :: "driver \<Rightarrow> mgr \<Rightarrow> unit res \<times> mgr \<times> event list" where
  "ensure_pool d m =
     (case pool m of
        Some p \<Rightarrow> (Return (), m, [])
      | None \<Rightarrow>
          (case create_pool_r d of
             Inl e \<Rightarrow> (Raise e, m, [CreatePool (db_config m) None])
           | Inr p \<Rightarrow> (Return (), m\<lparr>pool := Some p\<rparr>, [CreatePool (db_config m) (Some p)])))"

text \<open>Then \<open>self.pool.acquire()\<close>; a failure is logged and raised again.\<close>

definition get_connection :: "driver \<Rightarrow> mgr \<Rightarrow> conn res \<times> mgr \<times> event list" where
  "get_connection d m =
     (case ensure_pool d m of
        (Raise e, m1, t1) \<Rightarrow> (Raise e, m1, t1)
      | (Return u, m1, t1) \<Rightarrow>
          (case pool m1 of
             None \<Rightarrow>
               (Raise (Exception (39 # lit ''NoneType'' @ 39 # lit '' object has no attribute ''
                  @ 39 # lit ''acquire'' @ [39])), m1, t1)
           | Some p \<Rightarrow>
               (case acquire_r d of
                  Inl e \<Rightarrow> (Raise e, m1, t1 @ [Acquire p None])
                | Inr c \<Rightarrow> (Return c, m1, t1 @ [Acquire p (Some c)]))))"

text \<open>
  \<open>release_connection\<close> (lines 103-109): nothing without a pool; an \<open>Exception\<close> of
  \<open>pool.release\<close> is logged and dropped.
\<close>

definition release_connection :: "driver \<Rightarrow> mgr \<Rightarrow> conn \<Rightarrow> unit res \<times> event list" where
  "release_connection d m c =
     (case pool m of
        None \<Rightarrow> (Return (), [])
      | Some p \<Rightarrow>
          (case release_r d of
             None \<Rightarrow> (Return (), [Release p c])
           | Some (Exception msg) \<Rightarrow> (Return (), [Release p c])
           | Some (BaseException msg) \<Rightarrow> (Raise (BaseException msg), [Release p c])))"

text \<open>
  \<open>close_pool\<close> (lines 111-120): nothing without a pool; \<open>self.pool\<close> is reset only
  after both \<open>close()\<close> and \<open>wait_closed()\<close> went through; an \<open>Exception\<close> of either is
  logged and dropped, and leaves \<open>self.pool\<close> as it was.
\<close>

definition close_pool :: "driver \<Rightarrow> mgr \<Rightarrow> unit res \<times> mgr \<times> event list" where
  "close_pool d m =
     (case pool m of
        None \<Rightarrow> (Return (), m, [])
      | Some p \<Rightarrow>
          (case pool_close_r d of
             Some (Exception msg) \<Rightarrow> (Return (), m, [PoolClose p])
           | Some (BaseException msg) \<Rightarrow> (Raise (BaseException msg), m, [PoolClose p])
           | None \<Rightarrow>
               (case wait_closed_r d of
                  Some (Exception msg) \<Rightarrow> (Return (), m, [PoolClose p, WaitClosed p])
                | Some (BaseException msg) \<Rightarrow>
                    (Raise (BaseException msg), m, [PoolClose p, WaitClosed p])
                | None \<Rightarrow> (Return (), m\<lparr>pool := None\<rparr>, [PoolClose p, WaitClosed p]))))"

section \<open>The operation handlers\<close>

text \<open>
  A step of a handler's body gives a result and the driver calls it made;
  \<open>and_then\<close> runs the next step unless the first raised.
\<close>

definition and_then ::
  "'a res \<times> event list \<Rightarrow> ('a \<Rightarrow> 'b res \<times> event list) \<Rightarrow> 'b res \<times> event list" where
  "and_then x f =
     (case x of
        (Raise e, t) \<Rightarrow> (Raise e, t)
      | (Return a, t) \<Rightarrow> (case f a of (r, t') \<Rightarrow> (r, t @ t')))"

text \<open>A value computed without the driver, or an exception raised while computing it.\<close>

definition pure :: "exn + 'a \<Rightarrow> 'a res \<times> event list" where
  "pure x = (case x of Inl e \<Rightarrow> (Raise e, []) | Inr a \<Rightarrow> (Return a, []))"

definition execute ::
  "driver \<Rightarrow> conn \<Rightarrow> pystr \<Rightarrow> pyval list option \<Rightarrow> int res \<times> event list" where
  "execute d c sql args =
     (case execute_r d of
        Inl e \<Rightarrow> (Raise e, [Execute c sql args])
      | Inr n \<Rightarrow> (Return n, [Execute c sql args]))"

definition execute2 ::
  "driver \<Rightarrow> conn \<Rightarrow> pystr \<Rightarrow> pyval list option \<Rightarrow> int res \<times> event list" where
  "execute2 d c sql args =
     (case execute2_r d of
        Inl e \<Rightarrow> (Raise e, [Execute c sql args])
      | Inr n \<Rightarrow> (Return n, [Execute c sql args]))"

definition fetchone :: "driver \<Rightarrow> conn \<Rightarrow> pyval list option res \<times> event list" where
  "fetchone d c =
     (case fetchone_r d of
        Inl e \<Rightarrow> (Raise e, [Fetchone c])
      | Inr row \<Rightarrow> (Return row, [Fetchone c]))"

definition fetchone2 :: "driver \<Rightarrow> conn \<Rightarrow> pyval list option res \<times> event list" where
  "fetchone2 d c =
     (case fetchone2_r d of
        Inl e \<Rightarrow> (Raise e, [Fetchone c])
      | Inr row \<Rightarrow> (Return row, [Fetchone c]))"

definition fetchall :: "driver \<Rightarrow> conn \<Rightarrow> pyval list list res \<times> event list" where
  "fetchall d c =
     (case fetchall_r d of
        Inl e \<Rightarrow> (Raise e, [Fetchall c])
      | Inr rows \<Rightarrow> (Return rows, [Fetchall c]))"

definition fetchall_dict ::
  "driver \<Rightarrow> conn \<Rightarrow> (pystr \<times> pyval) list list res \<times> event list" where
  "fetchall_dict d c =
     (case fetchall_dict_r d of
        Inl e \<Rightarrow> (Raise e, [Fetchall c])
      | Inr rows \<Rightarrow> (Return rows, [Fetchall c]))"

text \<open>
  \<open>async with conn.cursor(...) as cursor: body\<close>. The cursor is closed however the body
  ends; an exception of the closing replaces the body's result.
\<close>

definition with_cursor ::
  "driver \<Rightarrow> conn \<Rightarrow> 'a res \<times> event list \<Rightarrow> 'a res \<times> event list" where
  "with_cursor d c body =
     (case cursor_r d of
        Some e \<Rightarrow> (Raise e, [CursorOpen c])
      | None \<Rightarrow>
          (case body of
             (r, t) \<Rightarrow>
               (case cursor_exit_r d of
                  Some e \<Rightarrow> (Raise e, CursorOpen c # t @ [CursorClose c])
                | None \<Rightarrow> (r, CursorOpen c # t @ [CursorClose c]))))"

text \<open>
  \<open>except Exception as e: error_msg = f"<prefix>{str(e)}"; return error_msg\<close>: an
  \<open>Exception\<close> becomes the returned string, anything else passes.
\<close>

definition except_clause :: "pystr \<Rightarrow> pystr res \<Rightarrow> pystr res" where
  "except_clause pre r =
     (case r of
        Raise (Exception msg) \<Rightarrow> Return (pre @ msg)
      | Raise (BaseException msg) \<Rightarrow> Raise (BaseException msg)
      | Return s \<Rightarrow> Return s)"

text \<open>
  The frame every handler has (for example lines 137-160):
  \<^verbatim>\<open>
    conn = None
    try:
        conn = await mysql_manager.get_connection()
        async with conn.cursor() as cursor:
            <body>
    except Exception as e:
        error_msg = f"<prefix>{str(e)}"
        return error_msg
    finally:
        if conn:
            await mysql_manager.release_connection(conn)
  \<close>
  An exception that leaves the \<open>finally\<close> block replaces the result.
\<close>

definition run_handler ::
  "pystr \<Rightarrow> driver \<Rightarrow> mgr \<Rightarrow> (mgr \<Rightarrow> conn \<Rightarrow> pystr res \<times> event list)
     \<Rightarrow> pystr res \<times> mgr \<times> event list" where
  "run_handler pre d m body =
     (case get_connection d m of
        (Raise e, m1, t1) \<Rightarrow> (except_clause pre (Raise e), m1, t1)
      | (Return c, m1, t1) \<Rightarrow>
          (case with_cursor d c (body m1 c) of
             (r, t2) \<Rightarrow>
               (case release_connection d m1 c of
                  (Raise e, t3) \<Rightarrow> (Raise e, m1, t1 @ t2 @ t3)
                | (Return u, t3) \<Rightarrow> (except_clause pre r, m1, t1 @ t2 @ t3))))"

subsection \<open>\<open>create_table\<close> (lines 125-160)\<close>

text \<open>\<open>col[key]\<close> on a dict of strings; a missing key is a \<open>KeyError\<close>, whose text is the quoted key.\<close>

definition getitem :: "(pystr \<times> pystr) list \<Rightarrow> pystr \<Rightarrow> exn + pystr" where
  "getitem col k =
     (case map_of col k of
        None \<Rightarrow> Inl (Exception (39 # k @ [39]))
      | Some v \<Rightarrow> Inr v)"

definition col_def :: "(pystr \<times> pystr) list \<Rightarrow> exn + pystr" where
  "col_def col =
     (case getitem col (lit ''name'') of
        Inl e \<Rightarrow> Inl e
      | Inr name \<Rightarrow>
          (case getitem col (lit ''type'') of
             Inl e \<Rightarrow> Inl e
           | Inr ty \<Rightarrow>
               Inr (lit ''`'' @ name @ lit ''` '' @ ty
                    @ (case map_of col (lit ''constraints'') of
                         None \<Rightarrow> []
                       | Some cs \<Rightarrow> if cs \<noteq> [] then 32 # cs else []))))"

fun column_defs :: "(pystr \<times> pystr) list list \<Rightarrow> exn + pystr list" where
  "column_defs [] = Inr []"
| "column_defs (col # cols) =
     (case col_def col of
        Inl e \<Rightarrow> Inl e
      | Inr s \<Rightarrow>
          (case column_defs cols of
             Inl e \<Rightarrow> Inl e
           | Inr ss \<Rightarrow> Inr (s # ss)))"

definition create_table_sql :: "pystr \<Rightarrow> pystr list \<Rightarrow> pystr" where
  "create_table_sql table_name defs =
     lit ''CREATE TABLE IF NOT EXISTS `'' @ table_name @ lit ''` (''
     @ join (lit '', '') defs @ lit '')''"

text \<open>The message of line 152, ending in the Chinese for "created".\<close>

definition create_table_msg :: "pystr \<Rightarrow> pystr" where
  "create_table_msg table_name =
     [0x8868, 32, 39] @ table_name @ [39, 32, 0x521B, 0x5EFA, 0x6210, 0x529F]"

text \<open>"Creating the table failed: "\<close>

definition create_table_prefix :: pystr where
  "create_table_prefix = [0x521B, 0x5EFA, 0x8868, 0x5931, 0x8D25, 58, 32]"

definition create_table ::
  "driver \<Rightarrow> mgr \<Rightarrow> pystr \<Rightarrow> (pystr \<times> pystr) list list \<Rightarrow> pystr res \<times> mgr \<times> event list" where
  "create_table d m table_name columns =
     run_handler create_table_prefix d m (\<lambda>m1 c.
       and_then (pure (column_defs columns)) (\<lambda>defs.
       and_then (execute d c (create_table_sql table_name defs) None) (\<lambda>n.
       (Return (create_table_msg table_name), []))))"

subsection \<open>\<open>insert_data\<close> (lines 162-195)\<close>

definition insert_sql :: "pystr \<Rightarrow> (pystr \<times> pyval) list \<Rightarrow> pystr" where
  "insert_sql table_name data =
     (let columns = map fst data;
          values = map snd data;
          placeholders = join (lit '', '') (replicate (length values) (lit ''%s''));
          column_names = join (lit '', '') (map (\<lambda>col. lit ''`'' @ col @ lit ''`'') columns)
      in lit ''INSERT INTO `'' @ table_name @ lit ''` ('' @ column_names
         @ lit '') VALUES ('' @ placeholders @ lit '')'')"

text \<open>"Data inserted, rows affected: "\<close>

definition insert_msg :: "int \<Rightarrow> pystr" where
  "insert_msg rowcount =
     [0x6570, 0x636E, 0x63D2, 0x5165, 0x6210, 0x529F, 0xFF0C, 0x53D7, 0x5F71, 0x54CD, 0x884C,
      0x6570, 58, 32] @ str_int rowcount"

text \<open>"Inserting the data failed: "\<close>

definition insert_prefix :: pystr where
  "insert_prefix = [0x63D2, 0x5165, 0x6570, 0x636E, 0x5931, 0x8D25, 58, 32]"

definition insert_data ::
  "driver \<Rightarrow> mgr \<Rightarrow> pystr \<Rightarrow> (pystr \<times> pyval) list \<Rightarrow> pystr res \<times> mgr \<times> event list" where
  "insert_data d m table_name data =
     run_handler insert_prefix d m (\<lambda>m1 c.
       and_then (execute d c (insert_sql table_name data) (Some (map snd data))) (\<lambda>rowcount.
       (Return (insert_msg rowcount), [])))"

subsection \<open>\<open>select_data\<close> (lines 197-248)\<close>

definition select_sql :: "pystr \<Rightarrow> pystr list option \<Rightarrow> pystr \<Rightarrow> int \<Rightarrow> pystr" where
  "select_sql table_name columns_arg where_clause limit =
     (let columns = (case columns_arg of None \<Rightarrow> [lit ''*''] | Some cols \<Rightarrow> cols);
          column_str =
            (if columns = [lit ''*''] then lit ''*''
             else join (lit '', '') (map (\<lambda>col. lit ''`'' @ col @ lit ''`'') columns));
          sql = lit ''SELECT '' @ column_str @ lit '' FROM `'' @ table_name @ lit ''`'';
          sql = (if where_clause \<noteq> [] then sql @ lit '' WHERE '' @ where_clause else sql)
      in sql @ lit '' LIMIT '' @ str_int limit)"

text \<open>The marker of line 233: "no data found".\<close>

definition no_data :: pystr where
  "no_data = [0x672A, 0x627E, 0x5230, 0x6570, 0x636E]"

text \<open>"Querying the data failed: "\<close>

definition select_prefix :: pystr where
  "select_prefix = [0x67E5, 0x8BE2, 0x6570, 0x636E, 0x5931, 0x8D25, 58, 32]"

definition select_data ::
  "driver \<Rightarrow> mgr \<Rightarrow> pystr \<Rightarrow> pystr list option \<Rightarrow> pystr \<Rightarrow> int
     \<Rightarrow> pystr res \<times> mgr \<times> event list" where
  "select_data d m table_name columns where_clause limit =
     run_handler select_prefix d m (\<lambda>m1 c.
       and_then (execute d c (select_sql table_name columns where_clause limit) None) (\<lambda>n.
       and_then (fetchall_dict d c) (\<lambda>results.
       if results = [] then (Return no_data, [])
       else pure (json_list_of_dicts True results))))"

subsection \<open>\<open>update_data\<close> (lines 250-283)\<close>

definition update_sql :: "pystr \<Rightarrow> (pystr \<times> pyval) list \<Rightarrow> pystr \<Rightarrow> pystr" where
  "update_sql table_name data where_clause =
     (let set_clauses = map (\<lambda>key. lit ''`'' @ key @ lit ''` = %s'') (map fst data);
          set_clause = join (lit '', '') set_clauses
      in lit ''UPDATE `'' @ table_name @ lit ''` SET '' @ set_clause
         @ lit '' WHERE '' @ where_clause)"

text \<open>"Data updated, rows affected: "\<close>

definition update_msg :: "int \<Rightarrow> pystr" where
  "update_msg rowcount =
     [0x6570, 0x636E, 0x66F4, 0x65B0, 0x6210, 0x529F, 0xFF0C, 0x53D7, 0x5F71, 0x54CD, 0x884C,
      0x6570, 58, 32] @ str_int rowcount"

text \<open>"Updating the data failed: "\<close>

definition update_prefix :: pystr where
  "update_prefix = [0x66F4, 0x65B0, 0x6570, 0x636E, 0x5931, 0x8D25, 58, 32]"

definition update_data ::
  "driver \<Rightarrow> mgr \<Rightarrow> pystr \<Rightarrow> (pystr \<times> pyval) list \<Rightarrow> pystr \<Rightarrow> pystr res \<times> mgr \<times> event list" where
  "update_data d m table_name data where_clause =
     run_handler update_prefix d m (\<lambda>m1 c.
       and_then (execute d c (update_sql table_name data where_clause) (Some (map snd data)))
         (\<lambda>rowcount.
       (Return (update_msg rowcount), [])))"

subsection \<open>\<open>delete_data\<close> (lines 285-313)\<close>

definition delete_sql :: "pystr \<Rightarrow> pystr \<Rightarrow> pystr" where
  "delete_sql table_name where_clause =
     lit ''DELETE FROM `'' @ table_name @ lit ''` WHERE '' @ where_clause"

text \<open>"Data deleted, rows affected: "\<close>

definition delete_msg :: "int \<Rightarrow> pystr" where
  "delete_msg rowcount =
     [0x6570, 0x636E, 0x5220, 0x9664, 0x6210, 0x529F, 0xFF0C, 0x53D7, 0x5F71, 0x54CD, 0x884C,
      0x6570, 58, 32] @ str_int rowcount"

text \<open>"Deleting the data failed: "\<close>

definition delete_prefix :: pystr where
  "delete_prefix = [0x5220, 0x9664, 0x6570, 0x636E, 0x5931, 0x8D25, 58, 32]"

definition delete_data ::
  "driver \<Rightarrow> mgr \<Rightarrow> pystr \<Rightarrow> pystr \<Rightarrow> pystr res \<times> mgr \<times> event list" where
  "delete_data d m table_name where_clause =
     run_handler delete_prefix d m (\<lambda>m1 c.
       and_then (execute d c (delete_sql table_name where_clause) None) (\<lambda>rowcount.
       (Return (delete_msg rowcount), [])))"

subsection \<open>\<open>show_tables\<close> (lines 315-342)\<close>

text \<open>\<open>row[0]\<close> on a tuple; on an empty one an \<open>IndexError\<close>.\<close>

definition tuple_first :: "pyval list \<Rightarrow> exn + pyval" where
  "tuple_first row =
     (case row of
        [] \<Rightarrow> Inl (Exception (lit ''tuple index out of range''))
      | v # vs \<Rightarrow> Inr v)"

fun table_list :: "pyval list list \<Rightarrow> exn + pyval list" where
  "table_list [] = Inr []"
| "table_list (row # rows) =
     (case tuple_first row of
        Inl e \<Rightarrow> Inl e
      | Inr v \<Rightarrow>
          (case table_list rows of
             Inl e \<Rightarrow> Inl e
           | Inr vs \<Rightarrow> Inr (v # vs)))"

text \<open>The marker of line 331: "the database has no tables".\<close>

definition no_tables :: pystr where
  "no_tables = [0x6570, 0x636E, 0x5E93, 0x4E2D, 0x6CA1, 0x6709, 0x8868]"

text \<open>Line 334: "tables of the database (n):", then one line \<open>- name\<close> per table.\<close>

definition show_tables_msg :: "pyval list \<Rightarrow> pystr" where
  "show_tables_msg tables =
     [0x6570, 0x636E, 0x5E93, 0x4E2D, 0x7684, 0x8868, 40] @ str_int (int (length tables))
     @ [0x4E2A, 41, 58, 10]
     @ join [10] (map (\<lambda>table. lit ''- '' @ py_str table) tables)"

text \<open>"Showing the tables failed: "\<close>

definition show_tables_prefix :: pystr where
  "show_tables_prefix = [0x663E, 0x793A, 0x8868, 0x5931, 0x8D25, 58, 32]"

definition show_tables :: "driver \<Rightarrow> mgr \<Rightarrow> pystr res \<times> mgr \<times> event list" where
  "show_tables d m =
     run_handler show_tables_prefix d m (\<lambda>m1 c.
       and_then (execute d c (lit ''SHOW TABLES'') None) (\<lambda>n.
       and_then (fetchall d c) (\<lambda>tables.
       if tables = [] then (Return no_tables, [])
       else and_then (pure (table_list tables)) (\<lambda>names.
            (Return (show_tables_msg names), [])))))"

subsection \<open>\<open>get_database_info\<close> (lines 344-381)\<close>

text \<open>\<open>row[0] if row else default\<close>: \<open>None\<close> and the empty tuple are both false.\<close>

definition first_or :: "pyval list option \<Rightarrow> pystr \<Rightarrow> pyval" where
  "first_or row dflt =
     (case row of
        None \<Rightarrow> PyStr dflt
      | Some [] \<Rightarrow> PyStr dflt
      | Some (v # vs) \<Rightarrow> v)"

text \<open>The dict \<open>info\<close> of lines 366-371, in the order of its keys.\<close>

definition database_info ::
  "config \<Rightarrow> pyval list option \<Rightarrow> pyval list option \<Rightarrow> (pystr \<times> pyval) list" where
  "database_info config_info version current_db =
     [(lit ''host'', PyStr (host config_info)),
      (lit ''port'', PyInt (port config_info)),
      (lit ''user'', PyStr (user config_info)),
      (lit ''password'', PyStr (password config_info)),
      (lit ''db'', PyStr (db config_info)),
      (lit ''charset'', PyStr (charset config_info)),
      (lit ''autocommit'', PyBool (autocommit config_info)),
      (lit ''mysql_version'', first_or version (lit ''Unknown'')),
      (lit ''current_database'', first_or current_db (lit ''None'')),
      (lit ''connection_status'', PyStr (lit ''Connected''))]"

text \<open>"Getting the database information failed: "\<close>

definition info_prefix :: pystr where
  "info_prefix =
     [0x83B7, 0x53D6, 0x6570, 0x636E, 0x5E93, 0x4FE1, 0x606F, 0x5931, 0x8D25, 58, 32]"

definition get_database_info :: "driver \<Rightarrow> mgr \<Rightarrow> pystr res \<times> mgr \<times> event list" where
  "get_database_info d m =
     run_handler info_prefix d m (\<lambda>m1 c.
       and_then (execute d c (lit ''SELECT VERSION()'') None) (\<lambda>n.
       and_then (fetchone d c) (\<lambda>version.
       and_then (execute2 d c (lit ''SELECT DATABASE()'') None) (\<lambda>n2.
       and_then (fetchone2 d c) (\<lambda>current_db.
       pure (json_dict False 0
               (database_info (get_config_info (db_config m1)) version current_db)))))))"

subsection \<open>The dispatcher's view\<close>

text \<open>
  The seven operations registered with \<open>@app.tool()\<close>, each with its arguments; the
  dispatcher has filled in the defaults of \<open>select_data\<close>.
\<close>

datatype request =
    CreateTable pystr "(pystr \<times> pystr) list list"
  | InsertData pystr "(pystr \<times> pyval) list"
  | SelectData pystr "pystr list option" pystr int
  | UpdateData pystr "(pystr \<times> pyval) list" pystr
  | DeleteData pystr pystr
  | ShowTables
  | GetDatabaseInfo

fun call_tool :: "driver \<Rightarrow> mgr \<Rightarrow> request \<Rightarrow> pystr res \<times> mgr \<times> event list" where
  "call_tool d m (CreateTable table_name columns) = create_table d m table_name columns"
| "call_tool d m (InsertData table_name data) = insert_data d m table_name data"
| "call_tool d m (SelectData table_name columns where_clause limit) =
     select_data d m table_name columns where_clause limit"
| "call_tool d m (UpdateData table_name data where_clause) =
     update_data d m table_name data where_clause"
| "call_tool d m (DeleteData table_name where_clause) = delete_data d m table_name where_clause"
| "call_tool d m ShowTables = show_tables d m"
| "call_tool d m GetDatabaseInfo = get_database_info d m"

text \<open>The text each handler puts before \<open>str(e)\<close> in its error result.\<close>

fun error_prefix :: "request \<Rightarrow> pystr" where
  "error_prefix (CreateTable table_name columns) = create_table_prefix"
| "error_prefix (InsertData table_name data) = insert_prefix"
| "error_prefix (SelectData table_name columns where_clause limit) = select_prefix"
| "error_prefix (UpdateData table_name data where_clause) = update_prefix"
| "error_prefix (DeleteData table_name where_clause) = delete_prefix"
| "error_prefix ShowTables = show_tables_prefix"
| "error_prefix GetDatabaseInfo = info_prefix"

section \<open>\<open>test_connection\<close> (lines 383-398)\<close>

text \<open>\<open>result[0]\<close> on what \<open>fetchone\<close> gave: \<open>None\<close> cannot be indexed.\<close>

definition subscript0 :: "pyval list option \<Rightarrow> exn + pyval" where
  "subscript0 result =
     (case result of
        None \<Rightarrow> Inl (Exception (39 # lit ''NoneType'' @ 39 # lit '' object is not subscriptable''))
      | Some row \<Rightarrow> tuple_first row)"

text \<open>\<open>except Exception as e: ...; return False\<close>\<close>

definition except_False :: "bool res \<Rightarrow> bool res" where
  "except_False r =
     (case r of
        Raise (Exception msg) \<Rightarrow> Return False
      | Raise (BaseException msg) \<Rightarrow> Raise (BaseException msg)
      | Return b \<Rightarrow> Return b)"

text \<open>
  The body of the \<open>async with\<close> gives \<open>True\<close> when it ends in \<open>return True\<close> and \<open>False\<close>
  when it runs to its end. Only then is line 394, the release, reached; after it the
  function returns \<open>False\<close> (line 398). There is no \<open>finally\<close>.
\<close>

definition test_connection :: "driver \<Rightarrow> mgr \<Rightarrow> bool res \<times> mgr \<times> event list" where
  "test_connection d m =
     (case get_connection d m of
        (Raise e, m1, t1) \<Rightarrow> (except_False (Raise e), m1, t1)
      | (Return c, m1, t1) \<Rightarrow>
          (case with_cursor d c
                  (and_then (execute d c (lit ''SELECT 1'') None) (\<lambda>n.
                   and_then (fetchone d c) (\<lambda>result.
                   and_then (pure (subscript0 result)) (\<lambda>v.
                   (Return (py_eq_one v), []))))) of
             (Raise e, t2) \<Rightarrow> (except_False (Raise e), m1, t1 @ t2)
           | (Return True, t2) \<Rightarrow> (Return True, m1, t1 @ t2)
           | (Return False, t2) \<Rightarrow>
               (case release_connection d m1 c of
                  (Raise e, t3) \<Rightarrow> (except_False (Raise e), m1, t1 @ t2 @ t3)
                | (Return u, t3) \<Rightarrow> (Return False, m1, t1 @ t2 @ t3))))"

section \<open>Several \<open>get_connection\<close> calls in flight\<close>

text \<open>
  asyncio runs one coroutine at a time and switches only where a coroutine waits. A
  \<open>get_connection\<close> call waits in three places: for the lock when it is held, for
  \<open>aiomysql.create_pool\<close>, and for \<open>pool.acquire()\<close>. Taking a free lock, testing
  \<open>self.pool\<close> and starting \<open>create_pool\<close> happen without a switch; so do storing the
  new pool, leaving the lock and starting \<open>pool.acquire()\<close>. Any call that finds the lock
  free may take it; \<open>asyncio.Lock\<close> serves waiting calls in their order, which allows
  fewer interleavings, not more.
\<close>

datatype pc =
    Start  \<comment> \<open>called, not yet run\<close>
  | WaitLock  \<comment> \<open>waiting for \<open>self._lock\<close>\<close>
  | Creating  \<comment> \<open>holding the lock, waiting for \<open>aiomysql.create_pool\<close>\<close>
  | Acquiring pool  \<comment> \<open>past the lock, waiting for \<open>self.pool.acquire()\<close>\<close>
  | Done conn  \<comment> \<open>returned a connection\<close>
  | Failed exn  \<comment> \<open>raised\<close>

text \<open>What wakes a task: the scheduler's turn, or the answer of the driver call it waits for.\<close>

datatype outcome =
    Resume
  | CreateResult "exn + pool"
  | AcquireResult "exn + conn"

record cstate =
  manager :: mgr
  locked :: bool  \<comment> \<open>\<open>self._lock\<close>\<close>
  tasks :: "pc list"  \<comment> \<open>the calls in flight\<close>
  create_calls :: nat  \<comment> \<open>calls of \<open>aiomysql.create_pool\<close> so far\<close>
  create_failures :: nat  \<comment> \<open>those that raised\<close>
  pools_created :: nat  \<comment> \<open>those that returned a pool\<close>

text \<open>
  Lines 74-90 up to the first wait: with the lock held the task waits for it; with the
  lock free and no pool it takes the lock and calls \<open>create_pool\<close>; with the lock free
  and a pool it passes through the lock and calls \<open>acquire\<close> on that pool.
\<close>

definition enter_lock :: "cstate \<Rightarrow> nat \<Rightarrow> cstate" where
  "enter_lock s i =
     (if locked s then s\<lparr>tasks := (tasks s)[i := WaitLock]\<rparr>
      else
        (case pool (manager s) of
           None \<Rightarrow>
             s\<lparr>locked := True, tasks := (tasks s)[i := Creating],
               create_calls := Suc (create_calls s)\<rparr>
         | Some p \<Rightarrow> s\<lparr>tasks := (tasks s)[i := Acquiring p]\<rparr>))"

text \<open>
  One task moves. When \<open>create_pool\<close> returns, the pool is stored, the lock is left and
  \<open>acquire\<close> is called; when it raises, the lock is left, \<open>self.pool\<close> stays unset and the
  call raises (lines 92-94). An event that does not fit the task's state changes nothing.
\<close>

fun pc_step :: "cstate \<Rightarrow> nat \<Rightarrow> pc \<Rightarrow> outcome \<Rightarrow> cstate" where
  "pc_step s i Start Resume = enter_lock s i"
| "pc_step s i WaitLock Resume = enter_lock s i"
| "pc_step s i Creating (CreateResult (Inr p)) =
     s\<lparr>manager := (manager s)\<lparr>pool := Some p\<rparr>, locked := False,
       tasks := (tasks s)[i := Acquiring p], pools_created := Suc (pools_created s)\<rparr>"
| "pc_step s i Creating (CreateResult (Inl e)) =
     s\<lparr>locked := False, tasks := (tasks s)[i := Failed e],
       create_failures := Suc (create_failures s)\<rparr>"
| "pc_step s i (Acquiring p) (AcquireResult (Inr c)) = s\<lparr>tasks := (tasks s)[i := Done c]\<rparr>"
| "pc_step s i (Acquiring p) (AcquireResult (Inl e)) = s\<lparr>tasks := (tasks s)[i := Failed e]\<rparr>"
| "pc_step s i _ _ = s"

definition task_step :: "cstate \<Rightarrow> nat \<times> outcome \<Rightarrow> cstate" where
  "task_step s ev =
     (case ev of (i, out) \<Rightarrow> if i < length (tasks s) then pc_step s i (tasks s ! i) out else s)"

fun run :: "cstate \<Rightarrow> (nat \<times> outcome) list \<Rightarrow> cstate" where
  "run s [] = s"
| "run s (ev # evs) = run (task_step s ev) evs"

text \<open>\<open>n\<close> calls started together on a manager, with the lock free.\<close>

definition start_calls :: "mgr \<Rightarrow> nat \<Rightarrow> cstate" where
  "start_calls m n =
     \<lparr>manager = m, locked = False, tasks = replicate n Start,
      create_calls = 0, create_failures = 0, pools_created = 0\<rparr>"

text \<open>
  What every step keeps: the lock is held exactly while one task is creating the pool,
  that is only while there is no pool; a pool is there exactly when one creation has
  returned; every call of \<open>create_pool\<close> has failed, returned, or is under way; a task
  that waits for \<open>acquire\<close> waits on the pool the manager holds.
\<close>

definition creating :: "cstate \<Rightarrow> nat" where
  "creating s = length (filter (\<lambda>p. p = Creating) (tasks s))"

definition lock_inv :: "cstate \<Rightarrow> bool" where
  "lock_inv s \<longleftrightarrow>
     creating s = (if locked s then 1 else 0) \<and>
     (locked s \<longrightarrow> pool (manager s) = None) \<and>
     pools_created s = (if pool (manager s) = None then 0 else 1) \<and>
     create_calls s = create_failures s + pools_created s + creating s \<and>
     (\<forall>p. Acquiring p \<in> set (tasks s) \<longrightarrow> pool (manager s) = Some p)"

section \<open>Example values\<close>

text \<open>The defaults of lines 50-58, a manager before its first use, and one with a pool.\<close>

definition default_config :: config where
  "default_config =
     \<lparr>host = lit ''localhost'', port = 3306, user = lit ''root'', password = lit ''root@123'',
      db = lit ''test01'', charset = lit ''utf8mb4'', autocommit = True\<rparr>"

definition new_mgr :: mgr where
  "new_mgr = \<lparr>db_config = default_config, pool = None\<rparr>"

definition ready_mgr :: mgr where
  "ready_mgr = \<lparr>db_config = default_config, pool = Some 0\<rparr>"

text \<open>
  A driver whose every call goes through: pool 0, connection 0, one row affected, the
  row \<open>(1,)\<close> for each \<open>fetchone\<close>, no rows for \<open>fetchall\<close>.
\<close>

definition ok_driver :: driver where
  "ok_driver =
     \<lparr>create_pool_r = Inr 0, acquire_r = Inr 0, release_r = None, pool_close_r = None,
      wait_closed_r = None, cursor_r = None, cursor_exit_r = None, execute_r = Inr 1,
      execute2_r = Inr 1, fetchone_r = Inr (Some [PyInt 1]), fetchone2_r = Inr (Some [PyInt 1]),
      fetchall_r = Inr [], fetchall_dict_r = Inr []\<rparr>"

text \<open>
  A configuration whose password is the user name, a driver that answers the two queries
  of \<open>get_database_info\<close>, and the text that \<open>json.dumps\<close> gives for them.
\<close>

definition root_mgr :: mgr where
  "root_mgr = \<lparr>db_config = default_config\<lparr>password := lit ''root''\<rparr>, pool = None\<rparr>"

definition info_driver :: driver where
  "info_driver =
     ok_driver\<lparr>fetchone_r := Inr (Some [PyStr (lit ''8.0.36'')]),
               fetchone2_r := Inr (Some [PyStr (lit ''test01'')])\<rparr>"

definition root_info_text :: pystr where
  "root_info_text =
     lit ''{'' @ 10 # lit ''  \"host\": \"localhost\",''
     @ 10 # lit ''  \"port\": 3306,''
     @ 10 # lit ''  \"user\": \"root\",''
     @ 10 # lit ''  \"password\": \"****\",''
     @ 10 # lit ''  \"db\": \"test01\",''
     @ 10 # lit ''  \"charset\": \"utf8mb4\",''
     @ 10 # lit ''  \"autocommit\": true,''
     @ 10 # lit ''  \"mysql_version\": \"8.0.36\",''
     @ 10 # lit ''  \"current_database\": \"test01\",''
     @ 10 # lit ''  \"connection_status\": \"Connected\"''
     @ 10 # lit ''}''"

section \<open>Traces and results of the building blocks\<close>

lemma execute_trace: "snd (execute d c sql args) = [Execute c sql args]"
  by (simp add: execute_def split: sum.splits)

lemma and_then_trace:
  "snd (and_then x f) = (case fst x of Raise e \<Rightarrow> snd x | Return a \<Rightarrow> snd x @ snd (f a))"
  by (cases x) (auto simp: and_then_def split: res.splits prod.splits)

lemma with_cursor_trace:
  "snd (with_cursor d c body) =
     (case cursor_r d of Some e \<Rightarrow> [CursorOpen c] | None \<Rightarrow> CursorOpen c # snd body @ [CursorClose c])"
  by (cases body) (simp add: with_cursor_def split: option.splits)

lemma release_connection_trace:
  "snd (release_connection d m c) = (case pool m of None \<Rightarrow> [] | Some p \<Rightarrow> [Release p c])"
  by (simp add: release_connection_def split: option.splits exn.splits)

lemma run_handler_trace:
  "snd (snd (run_handler pre d m body)) =
     (case get_connection d m of
        (Raise e, m1, t1) \<Rightarrow> t1
      | (Return c, m1, t1) \<Rightarrow>
          t1 @ snd (with_cursor d c (body m1 c)) @ snd (release_connection d m1 c))"
  by (simp add: run_handler_def split: prod.splits res.splits)

lemma get_connection_unfold:
  "get_connection d m =
     (case pool m of
        Some p \<Rightarrow>
          (case acquire_r d of
             Inl e \<Rightarrow> (Raise e, m, [Acquire p None])
           | Inr c \<Rightarrow> (Return c, m, [Acquire p (Some c)]))
      | None \<Rightarrow>
          (case create_pool_r d of
             Inl e \<Rightarrow> (Raise e, m, [CreatePool (db_config m) None])
           | Inr p \<Rightarrow>
               (case acquire_r d of
                  Inl e \<Rightarrow>
                    (Raise e, m\<lparr>pool := Some p\<rparr>, [CreatePool (db_config m) (Some p), Acquire p None])
                | Inr c \<Rightarrow>
                    (Return c, m\<lparr>pool := Some p\<rparr>,
                     [CreatePool (db_config m) (Some p), Acquire p (Some c)]))))"
  by (simp add: get_connection_def ensure_pool_def split: option.splits sum.splits)

lemma get_connection_Return:
  assumes "fst (get_connection d m) = Return c"
  obtains m1 p t1 where "get_connection d m = (Return c, m1, t1)"
    and "pool m1 = Some p" and "db_config m1 = db_config m"
    and "acquired t1 = [c]" and "released t1 = []"
  using assms
  by (auto simp: get_connection_unfold split: option.splits sum.splits)

lemma get_connection_Raise:
  assumes "fst (get_connection d m) = Raise e"
  obtains m1 t1 where "get_connection d m = (Raise e, m1, t1)"
    and "acquired t1 = []" and "released t1 = []"
  using assms
  by (auto simp: get_connection_unfold split: option.splits sum.splits)

section \<open>The statements of \<open>update_data\<close> and \<open>delete_data\<close>\<close>



section \<open>The statement and the parameters of \<open>insert_data\<close>\<close>

lemma acquired_append: "acquired (t @ u) = acquired t @ acquired u"
  by (induction t rule: acquired.induct) simp_all

lemma released_append: "released (t @ u) = released t @ released u"
  by (induction t rule: released.induct) simp_all

lemma executed_append: "executed (t @ u) = executed t @ executed u"
  by (induction t rule: executed.induct) simp_all

lemma get_connection_executed: "executed (snd (snd (get_connection d m))) = []"
  by (simp add: get_connection_unfold split: option.splits sum.splits)

lemma insert_data_executed:
  assumes "fst (get_connection d m) = Return c" and "cursor_r d = None"
  shows "executed (snd (snd (insert_data d m t data))) = [(insert_sql t data, Some (map snd data))]"
proof -
  from assms(1) obtain m1 p t1 where g: "get_connection d m = (Return c, m1, t1)"
    by (rule get_connection_Return)
  from get_connection_executed [of d m] g have "executed t1 = []" by simp
  then show ?thesis
    by (simp add: insert_data_def run_handler_trace g with_cursor_trace assms(2)
          and_then_trace execute_trace release_connection_trace executed_append
          split: res.splits option.splits)
qed

lemma join_replicate_Suc:
  "join sep (replicate (Suc (Suc n)) x) = x @ sep @ join sep (replicate (Suc n) x)"
  by simp

lemma count_placeholders_Suc:
  "count_list (join (lit '', '') (replicate (Suc n) (lit ''%s''))) 37 = Suc n"
proof (induction n)
  case 0
  show ?case by (simp add: lit_def)
next
  case (Suc n)
  have "count_list (join (lit '', '') (replicate (Suc (Suc n)) (lit ''%s''))) 37 =
        count_list (lit ''%s'' @ lit '', '') 37 + count_list (join (lit '', '') (replicate (Suc n) (lit ''%s''))) 37"
    by (simp only: join_replicate_Suc count_list_append add.assoc)
  also have "count_list (lit ''%s'' @ lit '', '') 37 = 1"
    by (simp add: lit_def)
  finally show ?case using Suc.IH by simp
qed

lemma count_placeholders:
  "count_list (join (lit '', '') (replicate n (lit ''%s''))) 37 = n"
  by (cases n) (simp_all only: count_placeholders_Suc, simp)

text \<open>
  The claim as written fails for two dicts with the same set of keys in a different
  order: \<open>{"a": 1, "b": 2}\<close> and \<open>{"b": 3, "a": 4}\<close> give statements that list the columns
  in different orders, because a dict keeps the order in which its keys were inserted and
  line 178 takes the columns in that order.
\<close>

theorem insert_sql_key_order_counterexample:
  "set (map fst [(lit ''a'', PyInt 1), (lit ''b'', PyInt 2)])
     = set (map fst [(lit ''b'', PyInt 3), (lit ''a'', PyInt 4)]) \<and>
   insert_sql (lit ''t'') [(lit ''a'', PyInt 1), (lit ''b'', PyInt 2)]
     = lit ''INSERT INTO `t` (`a`, `b`) VALUES (%s, %s)'' \<and>
   insert_sql (lit ''t'') [(lit ''b'', PyInt 3), (lit ''a'', PyInt 4)]
     = lit ''INSERT INTO `t` (`b`, `a`) VALUES (%s, %s)'' \<and>
   insert_sql (lit ''t'') [(lit ''a'', PyInt 1), (lit ''b'', PyInt 2)]
     \<noteq> insert_sql (lit ''t'') [(lit ''b'', PyInt 3), (lit ''a'', PyInt 4)]"
  by (simp add: insert_sql_def lit_def insert_commute)

text \<open>
  Claim C7, amended. The statement of \<open>insert_data\<close> is determined by the table name and
  the sequence of keys of \<open>data\<close>: two calls with the same table name and the same keys in
  the same order produce the same text, whatever the values are. Its \<open>VALUES\<close> list holds one
  \<open>%s\<close> per value (the character \<open>%\<close>, code point 37, occurs there once per value). The
  one statement handed to \<open>cursor.execute\<close> is this text, with the values as its bound
  parameters.
\<close>

theorem insert_values_bound:
  assumes "fst (get_connection d m) = Return c" and "cursor_r d = None"
    and "map fst data' = map fst data"
  shows "insert_sql t data' = insert_sql t data \<and>
         insert_sql t data =
           lit ''INSERT INTO `'' @ t @ lit ''` (''
           @ join (lit '', '') (map (\<lambda>col. lit ''`'' @ col @ lit ''`'') (map fst data))
           @ lit '') VALUES ('' @ join (lit '', '') (replicate (length data) (lit ''%s''))
           @ lit '')'' \<and>
         count_list (join (lit '', '') (replicate (length data) (lit ''%s''))) 37 = length data \<and>
         executed (snd (snd (insert_data d m t data))) = [(insert_sql t data, Some (map snd data))]"
proof -
  from assms(3) have "length data' = length data"
    by (metis length_map)
  with assms(3) have same: "insert_sql t data' = insert_sql t data"
    by (simp add: insert_sql_def)
  have shape: "insert_sql t data =
           lit ''INSERT INTO `'' @ t @ lit ''` (''
           @ join (lit '', '') (map (\<lambda>col. lit ''`'' @ col @ lit ''`'') (map fst data))
           @ lit '') VALUES ('' @ join (lit '', '') (replicate (length data) (lit ''%s''))
           @ lit '')''"
    by (simp add: insert_sql_def)
  from same shape count_placeholders [of "length data"] insert_data_executed [OF assms(1,2)]
  show ?thesis by blast
qed

theorem insert_values_bound_witness:
  "insert_sql (lit ''t'') [(lit ''a'', PyInt 3), (lit ''b'', PyStr (lit ''x''))]
     = insert_sql (lit ''t'') [(lit ''a'', PyInt 1), (lit ''b'', PyInt 2)] \<and>
   insert_sql (lit ''t'') [(lit ''a'', PyInt 1), (lit ''b'', PyInt 2)]
     = lit ''INSERT INTO `t` (`a`, `b`) VALUES (%s, %s)'' \<and>
   executed (snd (snd (insert_data ok_driver new_mgr (lit ''t'')
       [(lit ''a'', PyInt 1), (lit ''b'', PyInt 2)])))
     = [(lit ''INSERT INTO `t` (`a`, `b`) VALUES (%s, %s)'', Some [PyInt 1, PyInt 2])]"
proof -
  have g: "fst (get_connection ok_driver new_mgr) = Return 0"
    by (simp add: get_connection_unfold ok_driver_def new_mgr_def)
  have c: "cursor_r ok_driver = None"
    by (simp add: ok_driver_def)
  have k: "map fst [(lit ''a'', PyInt 3), (lit ''b'', PyStr (lit ''x''))]
             = map fst [(lit ''a'', PyInt 1), (lit ''b'', PyInt 2)]"
    by simp
  have s: "lit ''INSERT INTO `'' @ lit ''t'' @ lit ''` (''
           @ join (lit '', '') (map (\<lambda>col. lit ''`'' @ col @ lit ''`'')
               (map fst [(lit ''a'', PyInt 1), (lit ''b'', PyInt 2)]))
           @ lit '') VALUES (''
           @ join (lit '', '') (replicate (length [(lit ''a'', PyInt 1), (lit ''b'', PyInt 2)]) (lit ''%s''))
           @ lit '')'' = lit ''INSERT INTO `t` (`a`, `b`) VALUES (%s, %s)''"
    by (simp add: lit_def)
  from insert_values_bound [OF g c k, of "lit ''t''"] s
  show ?thesis by simp
qed

section \<open>Every handler gives its connection back\<close>

lemma and_then_no_pool_calls:
  assumes "no_pool_calls x" and "\<And>a. no_pool_calls (f a)"
  shows "no_pool_calls (and_then x f)"
  using assms
  by (simp add: no_pool_calls_def and_then_trace acquired_append released_append split: res.splits)

lemma pure_no_pool_calls: "no_pool_calls (pure x)"
  by (simp add: no_pool_calls_def pure_def split: sum.splits)

lemma execute_no_pool_calls: "no_pool_calls (execute d c sql args)"
  by (simp add: no_pool_calls_def execute_def split: sum.splits)

lemma execute2_no_pool_calls: "no_pool_calls (execute2 d c sql args)"
  by (simp add: no_pool_calls_def execute2_def split: sum.splits)

lemma fetchone_no_pool_calls: "no_pool_calls (fetchone d c)"
  by (simp add: no_pool_calls_def fetchone_def split: sum.splits)

lemma fetchone2_no_pool_calls: "no_pool_calls (fetchone2 d c)"
  by (simp add: no_pool_calls_def fetchone2_def split: sum.splits)

lemma fetchall_no_pool_calls: "no_pool_calls (fetchall d c)"
  by (simp add: no_pool_calls_def fetchall_def split: sum.splits)

lemma fetchall_dict_no_pool_calls: "no_pool_calls (fetchall_dict d c)"
  by (simp add: no_pool_calls_def fetchall_dict_def split: sum.splits)

lemma return_no_pool_calls: "no_pool_calls (Return a, [])"
  by (simp add: no_pool_calls_def)

lemmas body_no_pool_calls =
  and_then_no_pool_calls pure_no_pool_calls execute_no_pool_calls execute2_no_pool_calls
  fetchone_no_pool_calls fetchone2_no_pool_calls fetchall_no_pool_calls
  fetchall_dict_no_pool_calls return_no_pool_calls

lemma with_cursor_no_pool_calls:
  assumes "no_pool_calls body"
  shows "no_pool_calls (with_cursor d c body)"
  using assms
  by (simp add: no_pool_calls_def with_cursor_trace acquired_append released_append split: option.splits)

lemma run_handler_released:
  assumes "\<And>m1 c. no_pool_calls (body m1 c)"
  shows "released (snd (snd (run_handler pre d m body))) = acquired (snd (snd (run_handler pre d m body))) \<and>
         acquired (snd (snd (run_handler pre d m body))) =
           (case fst (get_connection d m) of Return c \<Rightarrow> [c] | Raise e \<Rightarrow> [])"
proof (cases "fst (get_connection d m)")
  case (Return c)
  then obtain m1 p t1 where g: "get_connection d m = (Return c, m1, t1)"
    and p: "pool m1 = Some p" and t1: "acquired t1 = [c]" "released t1 = []"
    by (rule get_connection_Return)
  from assms have "no_pool_calls (with_cursor d c (body m1 c))"
    by (rule with_cursor_no_pool_calls)
  with g p t1 show ?thesis
    by (simp add: no_pool_calls_def run_handler_trace release_connection_trace acquired_append released_append)
next
  case (Raise e)
  then obtain m1 t1 where g: "get_connection d m = (Raise e, m1, t1)"
    and t1: "acquired t1 = []" "released t1 = []"
    by (rule get_connection_Raise)
  then show ?thesis
    by (simp add: run_handler_trace)
qed

text \<open>
  Claim C5. For every operation and every behaviour of the driver, the connections that
  the invocation took from the pool are exactly those it handed to \<open>pool.release\<close>, each
  once, by the time it ends: the one connection that \<open>get_connection\<close> returned, or none
  when \<open>get_connection\<close> raised. This covers a normal return, a failure while building or
  executing the statement, and an exception that is not caught; so no connection is held
  from one invocation to the next. (A \<open>Release\<close> in the trace is the call of
  \<open>pool.release\<close>; whether the pool accepts the connection is the driver's part.)
\<close>

theorem connection_released_once:
  "released (snd (snd (call_tool d m req))) = acquired (snd (snd (call_tool d m req))) \<and>
   acquired (snd (snd (call_tool d m req))) =
     (case fst (get_connection d m) of Return c \<Rightarrow> [c] | Raise e \<Rightarrow> [])"
proof (cases req)
  case (CreateTable table_name columns)
  show ?thesis
    unfolding CreateTable call_tool.simps create_table_def
    by (rule run_handler_released) (simp add: body_no_pool_calls)
next
  case (InsertData table_name data)
  show ?thesis
    unfolding InsertData call_tool.simps insert_data_def
    by (rule run_handler_released) (simp add: body_no_pool_calls)
next
  case (SelectData table_name columns where_clause limit)
  show ?thesis
    unfolding SelectData call_tool.simps select_data_def
    by (rule run_handler_released) (simp add: body_no_pool_calls)
next
  case (UpdateData table_name data where_clause)
  show ?thesis
    unfolding UpdateData call_tool.simps update_data_def
    by (rule run_handler_released) (simp add: body_no_pool_calls)
next
  case (DeleteData table_name where_clause)
  show ?thesis
    unfolding DeleteData call_tool.simps delete_data_def
    by (rule run_handler_released) (simp add: body_no_pool_calls)
next
  case ShowTables
  show ?thesis
    unfolding ShowTables call_tool.simps show_tables_def
    by (rule run_handler_released) (simp add: body_no_pool_calls)
next
  case GetDatabaseInfo
  show ?thesis
    unfolding GetDatabaseInfo call_tool.simps get_database_info_def
    by (rule run_handler_released) (simp add: body_no_pool_calls)
qed

theorem connection_released_once_witness:
  "released (snd (snd (call_tool (ok_driver\<lparr>execute_r := Inl (Exception (lit ''syntax error''))\<rparr>)
       new_mgr (DeleteData (lit ''t'') [])))) = [0] \<and>
   acquired (snd (snd (call_tool (ok_driver\<lparr>execute_r := Inl (Exception (lit ''syntax error''))\<rparr>)
       new_mgr (DeleteData (lit ''t'') [])))) = [0]"
  using connection_released_once
    [of "ok_driver\<lparr>execute_r := Inl (Exception (lit ''syntax error''))\<rparr>" new_mgr
        "DeleteData (lit ''t'') []"]
  by (simp add: get_connection_unfold ok_driver_def new_mgr_def)

section \<open>The connectivity test keeps its connection\<close>

lemma test_connection_True_trace:
  assumes "fst (test_connection d m) = Return True"
  shows "\<exists>c. acquired (snd (snd (test_connection d m))) = [c] \<and> fst (get_connection d m) = Return c"
    and "released (snd (snd (test_connection d m))) = []"
proof -
  have "(\<exists>c. acquired (snd (snd (test_connection d m))) = [c] \<and> fst (get_connection d m) = Return c)
        \<and> released (snd (snd (test_connection d m))) = []"
  proof (cases "fst (get_connection d m)")
    case (Raise e)
    then obtain m1 t1 where "get_connection d m = (Raise e, m1, t1)"
      by (rule get_connection_Raise)
    with assms show ?thesis
      by (simp add: test_connection_def except_False_def split: exn.splits)
  next
    case (Return c)
    then obtain m1 p t1 where g: "get_connection d m = (Return c, m1, t1)"
      and t1: "acquired t1 = [c]" "released t1 = []"
      by (rule get_connection_Return)
    let ?body = "and_then (execute d c (lit ''SELECT 1'') None) (\<lambda>n.
                   and_then (fetchone d c) (\<lambda>result.
                   and_then (pure (subscript0 result)) (\<lambda>v.
                   (Return (py_eq_one v), []))))"
    have "no_pool_calls ?body"
      by (simp add: body_no_pool_calls)
    then have q: "no_pool_calls (with_cursor d c ?body)"
      by (rule with_cursor_no_pool_calls)
    obtain r t2 where w: "with_cursor d c ?body = (r, t2)"
      by (cases "with_cursor d c ?body")
    from q w have t2: "acquired t2 = []" "released t2 = []"
      by (simp_all add: no_pool_calls_def)
    from assms g w have "r = Return True"
      by (auto simp: test_connection_def except_False_def
          split: res.splits exn.splits bool.splits prod.splits if_splits)
    with g w t1 t2 show ?thesis
      by (simp add: test_connection_def acquired_append released_append)
  qed
  then show "\<exists>c. acquired (snd (snd (test_connection d m))) = [c] \<and> fst (get_connection d m) = Return c"
    and "released (snd (snd (test_connection d m))) = []"
    by simp_all
qed

lemma test_connection_success:
  assumes "fst (get_connection d m) = Return c" and "cursor_r d = None"
    and "execute_r d = Inr n" and "fetchone_r d = Inr (Some [PyInt 1])"
    and "cursor_exit_r d = None"
  shows "fst (test_connection d m) = Return True"
proof -
  from assms(1) obtain m1 p t1 where g: "get_connection d m = (Return c, m1, t1)"
    by (rule get_connection_Return)
  show ?thesis
    by (simp add: test_connection_def g with_cursor_def assms(2-5) and_then_def execute_def
        fetchone_def pure_def subscript0_def tuple_first_def)
qed

text \<open>
  Claim C9. When the round trip of the connectivity test succeeds (a connection and a
  cursor are obtained, \<open>SELECT 1\<close> executes and \<open>fetchone\<close> gives the row \<open>(1,)\<close>),
  \<open>test_connection\<close> returns \<open>True\<close>, and the trace of the call holds the connection it
  took from the pool and no \<open>pool.release\<close>: the function ends at \<open>return True\<close> inside
  the \<open>async with\<close>, before line 394. More generally no call that returns \<open>True\<close> has
  released anything. The function keeps no reference to the connection, so nothing can
  release it later.
\<close>

theorem test_connection_keeps_connection:
  assumes "fst (get_connection d m) = Return c" and "cursor_r d = None"
    and "execute_r d = Inr n" and "fetchone_r d = Inr (Some [PyInt 1])"
    and "cursor_exit_r d = None"
  shows "fst (test_connection d m) = Return True \<and>
         acquired (snd (snd (test_connection d m))) = [c] \<and>
         released (snd (snd (test_connection d m))) = [] \<and>
         (\<forall>d' m'. fst (test_connection d' m') = Return True \<longrightarrow>
            released (snd (snd (test_connection d' m'))) = [])"
proof -
  have r: "fst (test_connection d m) = Return True"
    using assms by (rule test_connection_success)
  from test_connection_True_trace(1) [OF r] assms(1)
  have a: "acquired (snd (snd (test_connection d m))) = [c]"
    by auto
  from r a test_connection_True_trace(2) show ?thesis
    by blast
qed

theorem test_connection_keeps_connection_witness:
  "fst (test_connection ok_driver new_mgr) = Return True \<and>
   acquired (snd (snd (test_connection ok_driver new_mgr))) = [0] \<and>
   released (snd (snd (test_connection ok_driver new_mgr))) = []"
proof -
  have g: "fst (get_connection ok_driver new_mgr) = Return 0"
    by (simp add: get_connection_unfold ok_driver_def new_mgr_def)
  have "cursor_r ok_driver = None" and "execute_r ok_driver = Inr 1"
    and "fetchone_r ok_driver = Inr (Some [PyInt 1])" and "cursor_exit_r ok_driver = None"
    by (simp_all add: ok_driver_def)
  from test_connection_keeps_connection [OF g this] show ?thesis
    by simp
qed

section \<open>Closing the pool\<close>

lemma close_pool_without_pool: "pool m = None \<Longrightarrow> close_pool d m = (Return (), m, [])"
  by (simp add: close_pool_def)

lemma close_pool_completed:
  assumes "pool_close_r d = None" and "wait_closed_r d = None"
  shows "pool (fst (snd (close_pool d m))) = None"
    and "db_config (fst (snd (close_pool d m))) = db_config m"
    and "fst (close_pool d m) = Return ()"
  using assms by (simp_all add: close_pool_def split: option.splits)

text \<open>
  The claim as written fails: after a completed \<open>close_pool\<close> on a manager with pool 0,
  \<open>get_connection\<close> calls \<open>aiomysql.create_pool\<close> again and, the driver willing,
  returns a connection of the new pool 1.
\<close>

theorem get_connection_after_close_counterexample:
  "fst (close_pool ok_driver ready_mgr) = Return () \<and>
   fst (get_connection (ok_driver\<lparr>create_pool_r := Inr 1, acquire_r := Inr 7\<rparr>)
          (fst (snd (close_pool ok_driver ready_mgr)))) = Return 7 \<and>
   pool (fst (snd (get_connection (ok_driver\<lparr>create_pool_r := Inr 1, acquire_r := Inr 7\<rparr>)
          (fst (snd (close_pool ok_driver ready_mgr)))))) = Some 1 \<and>
   snd (snd (get_connection (ok_driver\<lparr>create_pool_r := Inr 1, acquire_r := Inr 7\<rparr>)
          (fst (snd (close_pool ok_driver ready_mgr)))))
     = [CreatePool default_config (Some 1), Acquire 1 (Some 7)]"
  by (simp add: close_pool_def get_connection_unfold ok_driver_def ready_mgr_def)

text \<open>
  Claim C2, amended. After \<open>close_pool\<close> has completed (\<open>close()\<close> and \<open>wait_closed()\<close>
  went through, or there was no pool), \<open>self.pool\<close> is unset, and the next
  \<open>get_connection\<close> starts over: it calls \<open>aiomysql.create_pool\<close> once, with the same
  configuration, stores the new pool and returns a connection of it. It raises only what
  \<open>create_pool\<close> or \<open>acquire\<close> raises.
\<close>

theorem get_connection_after_close:
  assumes "pool_close_r d = None" and "wait_closed_r d = None"
  shows "pool (fst (snd (close_pool d m))) = None \<and>
         pool_creations (snd (snd (get_connection d' (fst (snd (close_pool d m)))))) = 1 \<and>
         fst (get_connection d' (fst (snd (close_pool d m)))) =
           (case create_pool_r d' of
              Inl e \<Rightarrow> Raise e
            | Inr p \<Rightarrow> (case acquire_r d' of Inl e \<Rightarrow> Raise e | Inr c \<Rightarrow> Return c)) \<and>
         pool (fst (snd (get_connection d' (fst (snd (close_pool d m)))))) =
           (case create_pool_r d' of Inl e \<Rightarrow> None | Inr p \<Rightarrow> Some p) \<and>
         (\<forall>cfg r. CreatePool cfg r \<in> set (snd (snd (get_connection d' (fst (snd (close_pool d m))))))
            \<longrightarrow> cfg = db_config m)"
proof -
  from assms have p: "pool (fst (snd (close_pool d m))) = None"
    and c: "db_config (fst (snd (close_pool d m))) = db_config m"
    by (rule close_pool_completed)+
  show ?thesis
    by (simp add: get_connection_unfold p c split: sum.splits)
qed

theorem get_connection_after_close_witness:
  "pool (fst (snd (close_pool ok_driver ready_mgr))) = None \<and>
   pool_creations (snd (snd (get_connection (ok_driver\<lparr>create_pool_r := Inr 1\<rparr>)
       (fst (snd (close_pool ok_driver ready_mgr)))))) = 1 \<and>
   fst (get_connection (ok_driver\<lparr>create_pool_r := Inr 1\<rparr>)
       (fst (snd (close_pool ok_driver ready_mgr)))) = Return 0"
proof -
  have "pool_close_r ok_driver = None" and "wait_closed_r ok_driver = None"
    by (simp_all add: ok_driver_def)
  from get_connection_after_close [OF this, of ready_mgr "ok_driver\<lparr>create_pool_r := Inr 1\<rparr>"]
  show ?thesis
    by (simp add: ok_driver_def)
qed

text \<open>
  The claim as written fails when the first call does not get through: if
  \<open>wait_closed()\<close> raises, the pool stays in \<open>self.pool\<close>, and a second call closes it
  again and, this time succeeding, leaves another state than the first call did.
\<close>

theorem close_pool_twice_counterexample:
  "fst (snd (close_pool (ok_driver\<lparr>wait_closed_r := Some (Exception (lit ''timeout''))\<rparr>) ready_mgr))
     = ready_mgr \<and>
   close_pool ok_driver
     (fst (snd (close_pool (ok_driver\<lparr>wait_closed_r := Some (Exception (lit ''timeout''))\<rparr>) ready_mgr)))
     = (Return (), new_mgr, [PoolClose 0, WaitClosed 0]) \<and>
   new_mgr \<noteq> ready_mgr"
  by (simp add: close_pool_def ok_driver_def ready_mgr_def new_mgr_def)

text \<open>
  Claim C6, amended. When the first \<open>close_pool\<close> has completed (\<open>close()\<close> and
  \<open>wait_closed()\<close> raised nothing), a second call makes no driver call, raises nothing
  and leaves the manager as the first call left it, whatever the driver would do; and
  \<open>close_pool\<close> on a manager that has no pool makes no driver call, raises nothing and
  changes nothing.
\<close>

theorem close_pool_idempotent:
  assumes "pool_close_r d = None" and "wait_closed_r d = None"
  shows "close_pool d' (fst (snd (close_pool d m)))
           = (Return (), fst (snd (close_pool d m)), []) \<and>
         (\<forall>d'' m'. pool m' = None \<longrightarrow> close_pool d'' m' = (Return (), m', []))"
proof -
  from assms have "pool (fst (snd (close_pool d m))) = None"
    by (rule close_pool_completed)
  then show ?thesis
    by (simp add: close_pool_without_pool)
qed

theorem close_pool_idempotent_witness:
  "close_pool (ok_driver\<lparr>pool_close_r := Some (Exception (lit ''closed''))\<rparr>)
       (fst (snd (close_pool ok_driver ready_mgr)))
     = (Return (), new_mgr, []) \<and>
   close_pool ok_driver new_mgr = (Return (), new_mgr, [])"
proof -
  have "pool_close_r ok_driver = None" and "wait_closed_r ok_driver = None"
    by (simp_all add: ok_driver_def)
  from close_pool_idempotent [OF this, of "ok_driver\<lparr>pool_close_r := Some (Exception (lit ''closed''))\<rparr>" ready_mgr]
  have "close_pool (ok_driver\<lparr>pool_close_r := Some (Exception (lit ''closed''))\<rparr>)
       (fst (snd (close_pool ok_driver ready_mgr)))
     = (Return (), fst (snd (close_pool ok_driver ready_mgr)), [])"
    and "close_pool ok_driver new_mgr = (Return (), new_mgr, [])"
    by (simp_all add: new_mgr_def)
  moreover have "fst (snd (close_pool ok_driver ready_mgr)) = new_mgr"
    by (simp add: close_pool_def ok_driver_def ready_mgr_def new_mgr_def)
  ultimately show ?thesis by simp
qed

section \<open>What a handler returns when something fails\<close>

lemma except_clause_no_Exception: "except_clause pre r \<noteq> Raise (Exception msg)"
  by (simp add: except_clause_def split: res.splits exn.splits)

lemma release_connection_no_Exception: "fst (release_connection d m c) \<noteq> Raise (Exception msg)"
  by (simp add: release_connection_def split: option.splits exn.splits)

lemma run_handler_no_Exception: "fst (run_handler pre d m body) \<noteq> Raise (Exception msg)"
proof (cases "get_connection d m")
  case (fields r m1 t1)
  show ?thesis
  proof (cases r)
    case (Raise e)
    with fields show ?thesis
      by (simp add: run_handler_def except_clause_no_Exception)
  next
    case (Return c)
    obtain r2 t2 where w: "with_cursor d c (body m1 c) = (r2, t2)"
      by (cases "with_cursor d c (body m1 c)")
    obtain r3 t3 where rel: "release_connection d m1 c = (r3, t3)"
      by (cases "release_connection d m1 c")
    from release_connection_no_Exception [of d m1 c msg] rel
    have "r3 \<noteq> Raise (Exception msg)" by simp
    with fields Return w rel show ?thesis
      by (cases r3) (simp_all add: run_handler_def except_clause_no_Exception)
  qed
qed

lemma run_handler_acquisition_fails:
  assumes "fst (get_connection d m) = Raise (Exception msg)"
  shows "fst (run_handler pre d m body) = Return (pre @ msg)"
proof -
  from assms obtain m1 t1 where "get_connection d m = (Raise (Exception msg), m1, t1)"
    by (rule get_connection_Raise)
  then show ?thesis
    by (simp add: run_handler_def except_clause_def)
qed

lemma run_handler_body_fails:
  assumes "get_connection d m = (Return c, m1, t1)"
    and "cursor_r d = None" and "cursor_exit_r d = None"
    and "\<forall>b. release_r d \<noteq> Some (BaseException b)"
    and "fst (body m1 c) = Raise (Exception msg)"
  shows "fst (run_handler pre d m body) = Return (pre @ msg)"
proof -
  obtain t where b: "body m1 c = (Raise (Exception msg), t)"
    using assms(5) by (cases "body m1 c") simp
  from assms(4) have "fst (release_connection d m1 c) = Return ()"
    by (simp add: release_connection_def split: option.splits exn.splits)
  then obtain t3 where "release_connection d m1 c = (Return (), t3)"
    by (cases "release_connection d m1 c") simp
  with assms(1-3) b show ?thesis
    by (simp add: run_handler_def with_cursor_def except_clause_def)
qed

lemma and_then_execute_fails:
  assumes "execute_r d = Inl e"
  shows "fst (and_then (execute d c sql args) f) = Raise e"
  using assms by (simp add: and_then_def execute_def)

lemma first_statement_fails:
  assumes g: "fst (get_connection d m) = Return c"
    and cur: "cursor_r d = None"
    and reached: "executed (snd (snd (call_tool d m req))) \<noteq> []"
    and ex: "execute_r d = Inl (Exception msg)"
    and cl: "cursor_exit_r d = None"
    and rel: "\<forall>b. release_r d \<noteq> Some (BaseException b)"
  shows "fst (call_tool d m req) = Return (error_prefix req @ msg)"
proof -
  from g obtain m1 p t1 where gc: "get_connection d m = (Return c, m1, t1)"
    and pl: "pool m1 = Some p"
    by (rule get_connection_Return)
  from get_connection_executed [of d m] gc have t1: "executed t1 = []"
    by simp
  note fails = run_handler_body_fails [OF gc cur cl rel]
  show ?thesis
  proof (cases req)
    case (CreateTable table_name columns)
    show ?thesis
    proof (cases "column_defs columns")
      case (Inl e)
      with reached t1 have False
        by (simp add: CreateTable create_table_def run_handler_trace gc with_cursor_trace cur
            release_connection_trace pl and_then_def pure_def executed_append)
      then show ?thesis ..
    next
      case (Inr defs)
      then show ?thesis
        unfolding CreateTable call_tool.simps error_prefix.simps create_table_def
        by (intro fails) (simp add: and_then_def pure_def execute_def ex)
    qed
  next
    case (InsertData table_name data)
    show ?thesis
      unfolding InsertData call_tool.simps error_prefix.simps insert_data_def
      by (intro fails and_then_execute_fails ex)
  next
    case (SelectData table_name columns where_clause limit)
    show ?thesis
      unfolding SelectData call_tool.simps error_prefix.simps select_data_def
      by (intro fails and_then_execute_fails ex)
  next
    case (UpdateData table_name data where_clause)
    show ?thesis
      unfolding UpdateData call_tool.simps error_prefix.simps update_data_def
      by (intro fails and_then_execute_fails ex)
  next
    case (DeleteData table_name where_clause)
    show ?thesis
      unfolding DeleteData call_tool.simps error_prefix.simps delete_data_def
      by (intro fails and_then_execute_fails ex)
  next
    case ShowTables
    show ?thesis
      unfolding ShowTables call_tool.simps error_prefix.simps show_tables_def
      by (intro fails and_then_execute_fails ex)
  next
    case GetDatabaseInfo
    show ?thesis
      unfolding GetDatabaseInfo call_tool.simps error_prefix.simps get_database_info_def
      by (intro fails and_then_execute_fails ex)
  qed
qed

lemma second_statement_fails:
  assumes g: "fst (get_connection d m) = Return c"
    and cur: "cursor_r d = None"
    and ex: "execute_r d = Inr n"
    and fe: "fetchone_r d = Inr row"
    and ex2: "execute2_r d = Inl (Exception msg)"
    and cl: "cursor_exit_r d = None"
    and rel: "\<forall>b. release_r d \<noteq> Some (BaseException b)"
  shows "fst (get_database_info d m) = Return (info_prefix @ msg)"
proof -
  from g obtain m1 p t1 where gc: "get_connection d m = (Return c, m1, t1)"
    by (rule get_connection_Return)
  show ?thesis
    unfolding get_database_info_def
    by (rule run_handler_body_fails [OF gc cur cl rel])
      (simp add: and_then_def execute_def execute2_def fetchone_def ex fe ex2)
qed

lemma call_tool_no_Exception: "fst (call_tool d m req) \<noteq> Raise (Exception msg)"
  by (cases req)
    (simp_all add: create_table_def insert_data_def select_data_def update_data_def
      delete_data_def show_tables_def get_database_info_def run_handler_no_Exception)

text \<open>
  The claim as written fails for an exception outside \<open>Exception\<close>: when the task is
  cancelled while \<open>cursor.execute\<close> waits, \<open>asyncio.CancelledError\<close> (whose \<open>str\<close> is
  empty) passes \<open>except Exception\<close> and leaves the handler.
\<close>

theorem handler_propagates_counterexample:
  "fst (call_tool (ok_driver\<lparr>execute_r := Inl (BaseException [])\<rparr>) new_mgr ShowTables)
     = Raise (BaseException [])"
  by (simp add: show_tables_def run_handler_def get_connection_unfold with_cursor_def
      and_then_def execute_def release_connection_def except_clause_def ok_driver_def new_mgr_def)

text \<open>
  Claim C4, amended. No handler lets an instance of \<open>Exception\<close> out: what leaves a handler
  as an exception is never one. When \<open>get_connection\<close> raises an \<open>Exception\<close>, the handler
  returns its own prefix followed by \<open>str(e)\<close>. When a connection and a cursor were
  obtained and the statement handed to \<open>cursor.execute\<close> raises an \<open>Exception\<close>, the handler
  returns its own prefix followed by \<open>str(e)\<close>, provided closing the cursor raises nothing
  and \<open>pool.release\<close> raises nothing outside \<open>Exception\<close>; so does \<open>get_database_info\<close>
  when its second statement raises.
\<close>

theorem handler_failures_returned:
  "(\<forall>msg. fst (call_tool d m req) \<noteq> Raise (Exception msg)) \<and>
   (\<forall>msg. fst (get_connection d m) = Raise (Exception msg) \<longrightarrow>
      fst (call_tool d m req) = Return (error_prefix req @ msg)) \<and>
   (\<forall>c msg. fst (get_connection d m) = Return c \<and> cursor_r d = None \<and>
      executed (snd (snd (call_tool d m req))) \<noteq> [] \<and>
      execute_r d = Inl (Exception msg) \<and> cursor_exit_r d = None \<and>
      (\<forall>b. release_r d \<noteq> Some (BaseException b)) \<longrightarrow>
      fst (call_tool d m req) = Return (error_prefix req @ msg)) \<and>
   (\<forall>c n row msg. fst (get_connection d m) = Return c \<and> cursor_r d = None \<and>
      execute_r d = Inr n \<and> fetchone_r d = Inr row \<and>
      execute2_r d = Inl (Exception msg) \<and> cursor_exit_r d = None \<and>
      (\<forall>b. release_r d \<noteq> Some (BaseException b)) \<longrightarrow>
      fst (call_tool d m GetDatabaseInfo) = Return (info_prefix @ msg))"
proof (intro conjI allI impI)
  fix msg
  show "fst (call_tool d m req) \<noteq> Raise (Exception msg)"
    by (rule call_tool_no_Exception)
next
  fix msg
  assume "fst (get_connection d m) = Raise (Exception msg)"
  then show "fst (call_tool d m req) = Return (error_prefix req @ msg)"
    by (cases req)
      (simp_all add: create_table_def insert_data_def select_data_def update_data_def
        delete_data_def show_tables_def get_database_info_def run_handler_acquisition_fails)
next
  fix c msg
  assume "fst (get_connection d m) = Return c \<and> cursor_r d = None \<and>
      executed (snd (snd (call_tool d m req))) \<noteq> [] \<and>
      execute_r d = Inl (Exception msg) \<and> cursor_exit_r d = None \<and>
      (\<forall>b. release_r d \<noteq> Some (BaseException b))"
  then show "fst (call_tool d m req) = Return (error_prefix req @ msg)"
    by (intro first_statement_fails) simp_all
next
  fix c n row msg
  assume "fst (get_connection d m) = Return c \<and> cursor_r d = None \<and>
      execute_r d = Inr n \<and> fetchone_r d = Inr row \<and>
      execute2_r d = Inl (Exception msg) \<and> cursor_exit_r d = None \<and>
      (\<forall>b. release_r d \<noteq> Some (BaseException b))"
  then show "fst (call_tool d m GetDatabaseInfo) = Return (info_prefix @ msg)"
    by (simp add: second_statement_fails)
qed


theorem handler_failures_returned_witness:
  "fst (call_tool (ok_driver\<lparr>create_pool_r := Inl (Exception (lit ''Connection refused''))\<rparr>)
          new_mgr (DeleteData (lit ''t'') (lit ''id = 1'')))
     = Return (delete_prefix @ lit ''Connection refused'') \<and>
   fst (call_tool (ok_driver\<lparr>execute_r := Inl (Exception (lit ''syntax error''))\<rparr>)
          new_mgr (DeleteData (lit ''t'') (lit ''id = 1'')))
     = Return (delete_prefix @ lit ''syntax error'')"
proof -
  let ?req = "DeleteData (lit ''t'') (lit ''id = 1'')"
  let ?d1 = "ok_driver\<lparr>create_pool_r := Inl (Exception (lit ''Connection refused''))\<rparr>"
  let ?d2 = "ok_driver\<lparr>execute_r := Inl (Exception (lit ''syntax error''))\<rparr>"
  have "fst (get_connection ?d1 new_mgr) = Raise (Exception (lit ''Connection refused''))"
    by (simp add: get_connection_unfold ok_driver_def new_mgr_def)
  with handler_failures_returned [of ?d1 new_mgr ?req]
  have a: "fst (call_tool ?d1 new_mgr ?req) = Return (error_prefix ?req @ lit ''Connection refused'')"
    by blast
  have "fst (get_connection ?d2 new_mgr) = Return 0"
    and "executed (snd (snd (call_tool ?d2 new_mgr ?req))) \<noteq> []"
    and "cursor_r ?d2 = None" and "cursor_exit_r ?d2 = None"
    and "execute_r ?d2 = Inl (Exception (lit ''syntax error''))"
    and "\<forall>b. release_r ?d2 \<noteq> Some (BaseException b)"
    by (simp_all add: delete_data_def run_handler_def get_connection_unfold with_cursor_def
        and_then_def execute_def release_connection_def ok_driver_def new_mgr_def)
  with handler_failures_returned [of ?d2 new_mgr ?req]
  have b: "fst (call_tool ?d2 new_mgr ?req) = Return (error_prefix ?req @ lit ''syntax error'')"
    by blast
  from a b show ?thesis by simp
qed

section \<open>The results of \<open>select_data\<close>\<close>












section \<open>The password in the result of \<open>get_database_info\<close>\<close>

lemma newline_indent_0: "newline_indent 0 = [10]"
  by (simp add: newline_indent_def)

lemma newline_indent_1: "newline_indent (Suc 0) = [10, 32, 32]"
  by (simp add: newline_indent_def numeral_2_eq_2)

lemma str_int_3306: "str_int 3306 = lit ''3306''"
  by (simp add: str_int_def digits.simps lit_def)

lemma root_info_json:
  "json_dict False 0
     (database_info (get_config_info (db_config root_mgr))
        (Some [PyStr (lit ''8.0.36'')]) (Some [PyStr (lit ''test01'')]))
   = Inr root_info_text"
  by (simp add: json_dict_def database_info_def get_config_info_def first_or_def
      json_string_def json_escape_char_def newline_indent_0 newline_indent_1 str_int_3306
      root_mgr_def default_config_def root_info_text_def lit_def)

text \<open>
  The claim as written fails when the password occurs elsewhere in the document: with
  the user \<open>root\<close> and the password \<open>root\<close>, the returned text holds the password in
  its \<open>user\<close> entry. (A password made of asterisks is also its own mask.)
\<close>

theorem password_in_info_counterexample:
  "password (db_config root_mgr) = lit ''root'' \<and>
   fst (get_database_info info_driver root_mgr) = Return root_info_text \<and>
   sublist (lit ''root'') root_info_text"
proof -
  have "fst (get_database_info info_driver root_mgr) =
          (case json_dict False 0
                 (database_info (get_config_info (db_config root_mgr))
                    (Some [PyStr (lit ''8.0.36'')]) (Some [PyStr (lit ''test01'')])) of
             Inl e \<Rightarrow> except_clause info_prefix (Raise e)
           | Inr s \<Rightarrow> Return s)"
    by (simp add: get_database_info_def run_handler_def get_connection_unfold with_cursor_def
        and_then_def execute_def execute2_def fetchone_def fetchone2_def pure_def
        release_connection_def except_clause_def info_driver_def ok_driver_def root_mgr_def
        split: sum.splits)
  then have "fst (get_database_info info_driver root_mgr) = Return root_info_text"
    by (simp only: root_info_json sum.case)
  moreover have "sublist (lit ''root'') root_info_text"
  proof -
    let ?before = "lit ''{'' @ 10 # lit ''  \"host\": \"localhost\",''
       @ 10 # lit ''  \"port\": 3306,'' @ 10 # lit ''  \"user\": \"''"
    let ?after = "lit ''\",'' @ 10 # lit ''  \"password\": \"****\",''
       @ 10 # lit ''  \"db\": \"test01\",''
       @ 10 # lit ''  \"charset\": \"utf8mb4\",''
       @ 10 # lit ''  \"autocommit\": true,''
       @ 10 # lit ''  \"mysql_version\": \"8.0.36\",''
       @ 10 # lit ''  \"current_database\": \"test01\",''
       @ 10 # lit ''  \"connection_status\": \"Connected\"''
       @ 10 # lit ''}''"
    have "root_info_text = ?before @ lit ''root'' @ ?after"
      by (simp add: root_info_text_def lit_def)
    moreover have "sublist (lit ''root'') (?before @ lit ''root'' @ ?after)"
      by (rule sublist_appendI)
    ultimately show ?thesis by (simp only:)
  qed
  moreover have "password (db_config root_mgr) = lit ''root''"
    by (simp add: root_mgr_def)
  ultimately show ?thesis by simp
qed


lemma get_config_info_length:
  assumes "length (pw' :: pystr) = length pw"
  shows "get_config_info (cfg\<lparr>password := pw'\<rparr>) = get_config_info (cfg\<lparr>password := pw\<rparr>)"
proof -
  from assms have "pw' = [] \<longleftrightarrow> pw = []" by auto
  with assms show ?thesis
    by (simp add: get_config_info_def)
qed

lemma json_string_stars: "json_string (replicate n 42) = 34 # replicate n 42 @ [34]"
proof -
  have "concat (map json_escape_char (replicate n 42)) = replicate n 42"
    by (induction n) (simp_all add: json_escape_char_def)
  then show ?thesis by (simp add: json_string_def)
qed

lemma json_string_mask:
  "json_string (password (get_config_info cfg)) = 34 # password (get_config_info cfg) @ [34]"
proof (cases "password cfg = []")
  case True
  then show ?thesis
    by (simp add: get_config_info_def json_string_def json_escape_char_def lit_def)
next
  case False
  then show ?thesis
    by (simp add: get_config_info_def json_string_stars)
qed

lemma sublist_join: "x \<in> set xs \<Longrightarrow> sublist x (join sep xs)"
proof (induction sep xs rule: join.induct)
  case (1 sep)
  then show ?case by simp
next
  case (2 sep y)
  then show ?case by simp
next
  case (3 sep y z zs)
  show ?case
  proof (cases "x = y")
    case True
    then show ?thesis by simp
  next
    case False
    with 3 have "sublist x (join sep (z # zs))" by simp
    moreover have "sublist (join sep (z # zs)) ((y @ sep) @ join sep (z # zs))"
      by (rule sublist_append_leftI)
    ultimately have "sublist x ((y @ sep) @ join sep (z # zs))"
      by (rule sublist_order.order.trans)
    then show ?thesis by simp
  qed
qed

lemma json_items_member:
  assumes "json_items dflt kvs = Inr ss" and "(k, v) \<in> set kvs" and "json_atom dflt v = Inr a"
  shows "json_string k @ lit '': '' @ a \<in> set ss"
  using assms
proof (induction kvs arbitrary: ss)
  case Nil
  then show ?case by simp
next
  case (Cons kv kvs)
  then show ?case
    by (cases kv) (auto split: sum.splits)
qed

lemma json_dict_member:
  assumes "json_dict dflt level kvs = Inr s" and "(k, v) \<in> set kvs" and "json_atom dflt v = Inr a"
  shows "sublist (json_string k @ lit '': '' @ a) s"
proof -
  from assms(2) have ne: "kvs \<noteq> []" by auto
  with assms(1) obtain ss where ss: "json_items dflt kvs = Inr ss"
    and s: "s = (lit ''{'' @ newline_indent (level + 1))
                @ join (44 # newline_indent (level + 1)) ss
                @ (newline_indent level @ lit ''}'')"
    by (auto simp: json_dict_def split: sum.splits)
  from ss assms(2,3) have "json_string k @ lit '': '' @ a \<in> set ss"
    by (rule json_items_member)
  then have "sublist (json_string k @ lit '': '' @ a) (join (44 # newline_indent (level + 1)) ss)"
    by (rule sublist_join)
  moreover have "sublist (join (44 # newline_indent (level + 1)) ss) s"
    unfolding s by (rule sublist_appendI)
  ultimately show ?thesis
    by (rule sublist_order.order.trans)
qed

lemma get_database_info_result:
  assumes "fst (get_connection d m) = Return c"
    and "cursor_r d = None" and "execute_r d = Inr n" and "fetchone_r d = Inr version"
    and "execute2_r d = Inr n2" and "fetchone2_r d = Inr current_db"
    and "cursor_exit_r d = None" and "\<forall>b. release_r d \<noteq> Some (BaseException b)"
  shows "fst (get_database_info d m) =
           (case json_dict False 0
                   (database_info (get_config_info (db_config m)) version current_db) of
              Inl e \<Rightarrow> except_clause info_prefix (Raise e)
            | Inr s \<Rightarrow> Return s)"
proof -
  from assms(1) obtain m1 p t1 where gc: "get_connection d m = (Return c, m1, t1)"
    and cfg: "db_config m1 = db_config m"
    by (rule get_connection_Return)
  from assms(8) have "fst (release_connection d m1 c) = Return ()"
    by (simp add: release_connection_def split: option.splits exn.splits)
  then obtain t3 where "release_connection d m1 c = (Return (), t3)"
    by (cases "release_connection d m1 c") simp
  with gc cfg assms(2-7) show ?thesis
    by (simp add: get_database_info_def run_handler_def with_cursor_def and_then_def
        execute_def execute2_def fetchone_def fetchone2_def pure_def except_clause_def
        split: sum.splits)
qed

lemma get_connection_result_config:
  "fst (get_connection d (m\<lparr>db_config := cfg\<rparr>)) = fst (get_connection d m)"
  by (simp add: get_connection_unfold split: option.splits sum.splits)

text \<open>
  Claim C3, amended. When \<open>get_database_info\<close> succeeds, the string it returns is the JSON
  text of the configuration with the password replaced and the two query results added.
  The text holds the entry \<open>"password": "<mask>"\<close>, where the mask is one asterisk per
  character of the password, or \<open>Empty\<close> for an empty password; so the mask has the length
  of the password, not a fixed length. The returned string depends on the password only
  through its length: any other password of the same length gives the same string.
\<close>

theorem database_info_password_masked:
  assumes "fst (get_connection d m) = Return c"
    and "cursor_r d = None" and "execute_r d = Inr n" and "fetchone_r d = Inr version"
    and "execute2_r d = Inr n2" and "fetchone2_r d = Inr current_db"
    and "cursor_exit_r d = None" and "\<forall>b. release_r d \<noteq> Some (BaseException b)"
    and "json_dict False 0 (database_info (get_config_info (db_config m)) version current_db)
           = Inr s"
  shows "fst (get_database_info d m) = Return s \<and>
         sublist (lit ''\"password\": \"''
                  @ (if password (db_config m) \<noteq> []
                     then replicate (length (password (db_config m))) 42 else lit ''Empty'')
                  @ lit ''\"'') s \<and>
         (\<forall>pw' :: pystr. length pw' = length (password (db_config m)) \<longrightarrow>
            fst (get_database_info d (m\<lparr>db_config := (db_config m)\<lparr>password := pw'\<rparr>\<rparr>))
              = Return s)"
proof (intro conjI allI impI)
  from get_database_info_result [OF assms(1-8)] assms(9)
  show "fst (get_database_info d m) = Return s" by simp
next
  let ?ci = "get_config_info (db_config m)"
  have "(lit ''password'', PyStr (password ?ci)) \<in> set (database_info ?ci version current_db)"
    by (simp add: database_info_def)
  moreover have "json_atom False (PyStr (password ?ci)) = Inr (json_string (password ?ci))"
    by simp
  ultimately have "sublist (json_string (lit ''password'') @ lit '': ''
                            @ json_string (password ?ci)) s"
    by (rule json_dict_member [OF assms(9)])
  moreover have "json_string (lit ''password'') @ lit '': '' @ json_string (password ?ci)
      = lit ''\"password\": \"''
        @ (if password (db_config m) \<noteq> []
           then replicate (length (password (db_config m))) 42 else lit ''Empty'')
        @ lit ''\"''"
    by (simp add: json_string_mask) (simp add: get_config_info_def json_string_def
        json_escape_char_def lit_def)
  ultimately show "sublist (lit ''\"password\": \"''
                  @ (if password (db_config m) \<noteq> []
                     then replicate (length (password (db_config m))) 42 else lit ''Empty'')
                  @ lit ''\"'') s"
    by (simp only:)
next
  fix pw' :: pystr
  assume len: "length pw' = length (password (db_config m))"
  let ?m' = "m\<lparr>db_config := (db_config m)\<lparr>password := pw'\<rparr>\<rparr>"
  have g: "fst (get_connection d ?m') = Return c"
    by (simp only: get_connection_result_config assms(1))
  have "get_config_info (db_config ?m')
          = get_config_info ((db_config m)\<lparr>password := password (db_config m)\<rparr>)"
    using len by (simp add: get_config_info_length)
  then have "get_config_info (db_config ?m') = get_config_info (db_config m)"
    by simp
  with get_database_info_result [OF g assms(2-8)] assms(9)
  show "fst (get_database_info d ?m') = Return s" by simp
qed

theorem database_info_password_masked_witness:
  "fst (get_database_info info_driver root_mgr) = Return root_info_text \<and>
   sublist (lit ''\"password\": \"****\"'') root_info_text \<and>
   fst (get_database_info info_driver
          (root_mgr\<lparr>db_config := (db_config root_mgr)\<lparr>password := lit ''toor''\<rparr>\<rparr>))
     = Return root_info_text"
proof -
  have g: "fst (get_connection info_driver root_mgr) = Return 0"
    by (simp add: get_connection_unfold info_driver_def ok_driver_def root_mgr_def)
  have ok: "cursor_r info_driver = None" "execute_r info_driver = Inr 1"
    "fetchone_r info_driver = Inr (Some [PyStr (lit ''8.0.36'')])"
    "execute2_r info_driver = Inr 1"
    "fetchone2_r info_driver = Inr (Some [PyStr (lit ''test01'')])"
    "cursor_exit_r info_driver = None"
    "\<forall>b. release_r info_driver \<noteq> Some (BaseException b)"
    by (simp_all add: info_driver_def ok_driver_def)
  have pw: "password (db_config root_mgr) = lit ''root''"
    by (simp add: root_mgr_def)
  have len: "length (lit ''toor'') = length (password (db_config root_mgr))"
    by (simp add: pw lit_def)
  have mask: "lit ''\"password\": \"''
        @ (if password (db_config root_mgr) \<noteq> []
           then replicate (length (password (db_config root_mgr))) 42 else lit ''Empty'')
        @ lit ''\"'' = lit ''\"password\": \"****\"''"
    by (simp add: pw lit_def numeral_eq_Suc)
  from database_info_password_masked [OF g ok root_info_json] len
  show ?thesis
    by (simp only: mask)
qed

section \<open>One pool for all callers\<close>

lemma filter_update_length:
  "i < length xs \<Longrightarrow>
     length (filter P (xs[i := y])) + (if P (xs ! i) then 1 else 0)
       = length (filter P xs) + (if P y then 1 else 0)"
proof (induction xs arbitrary: i)
  case Nil
  then show ?case by simp
next
  case (Cons x xs)
  show ?case
  proof (cases i)
    case 0
    then show ?thesis by simp
  next
    case (Suc j)
    with Cons.prems have "j < length xs" by simp
    from Cons.IH [OF this] Suc show ?thesis by simp
  qed
qed

lemma creating_update:
  assumes "i < length (tasks s)"
  shows "creating (s\<lparr>tasks := (tasks s)[i := y]\<rparr>) + (if tasks s ! i = Creating then 1 else 0)
           = creating s + (if y = Creating then 1 else 0)"
  using filter_update_length [OF assms, of "\<lambda>p. p = Creating" y]
  by (simp add: creating_def)

lemma acquiring_update:
  assumes "Acquiring p \<in> set (xs[i := y])"
  shows "Acquiring p = y \<or> Acquiring p \<in> set xs"
  using assms set_update_subset_insert [of xs i y] by auto

lemma enter_lock_inv:
  assumes inv: "lock_inv s" and i: "i < length (tasks s)"
    and pc: "tasks s ! i = Start \<or> tasks s ! i = WaitLock"
  shows "lock_inv (enter_lock s i)"
proof -
  from pc have nc: "tasks s ! i \<noteq> Creating" by auto
  show ?thesis
  proof (cases "locked s")
    case True
    from creating_update [OF i, of WaitLock] nc
    have "creating (s\<lparr>tasks := (tasks s)[i := WaitLock]\<rparr>) = creating s" by simp
    with inv True show ?thesis
      by (auto simp: lock_inv_def enter_lock_def dest: acquiring_update)
  next
    case False
    show ?thesis
    proof (cases "pool (manager s)")
      case None
      from creating_update [OF i, of Creating] nc
      have "creating (s\<lparr>tasks := (tasks s)[i := Creating]\<rparr>) = Suc (creating s)" by simp
      then have "creating (s\<lparr>locked := True, tasks := (tasks s)[i := Creating],
          create_calls := Suc (create_calls s)\<rparr>) = Suc (creating s)"
        by (simp add: creating_def)
      with inv False None show ?thesis
        by (auto simp: lock_inv_def enter_lock_def dest: acquiring_update)
    next
      case (Some p)
      from creating_update [OF i, of "Acquiring p"] nc
      have "creating (s\<lparr>tasks := (tasks s)[i := Acquiring p]\<rparr>) = creating s" by simp
      with inv False Some show ?thesis
        by (auto simp: lock_inv_def enter_lock_def dest: acquiring_update)
    qed
  qed
qed

lemma creating_locked:
  assumes "lock_inv s" and "i < length (tasks s)" and "tasks s ! i = Creating"
  shows "locked s \<and> creating s = 1 \<and> pool (manager s) = None \<and> pools_created s = 0"
proof -
  from assms(2,3) have "Creating \<in> set (tasks s)"
    by (metis nth_mem)
  then have "filter (\<lambda>p. p = Creating) (tasks s) \<noteq> []"
    by (simp add: filter_empty_conv)
  then have "creating s \<noteq> 0"
    by (simp add: creating_def)
  with assms(1) show ?thesis
    by (auto simp: lock_inv_def split: if_splits)
qed

lemma pc_step_inv:
  assumes inv: "lock_inv s" and i: "i < length (tasks s)"
  shows "lock_inv (pc_step s i (tasks s ! i) out)"
proof (cases "tasks s ! i")
  case Start
  with enter_lock_inv [OF inv i] inv show ?thesis
    by (cases out) simp_all
next
  case WaitLock
  with enter_lock_inv [OF inv i] inv show ?thesis
    by (cases out) simp_all
next
  case Creating
  from creating_locked [OF inv i Creating]
  have l: "locked s" and c: "creating s = 1" and p: "pool (manager s) = None"
    and n: "pools_created s = 0" by simp_all
  from inv p have no_acq: "\<And>q. Acquiring q \<notin> set (tasks s)"
    by (auto simp: lock_inv_def)
  show ?thesis
  proof (cases out)
    case Resume
    with Creating inv show ?thesis by simp
  next
    case (AcquireResult r)
    with Creating inv show ?thesis by simp
  next
    case (CreateResult r)
    show ?thesis
    proof (cases r)
      case (Inl e)
      from creating_update [OF i, of "Failed e"] Creating c
      have "creating (s\<lparr>tasks := (tasks s)[i := Failed e]\<rparr>) = 0" by simp
      then have "creating (s\<lparr>locked := False, tasks := (tasks s)[i := Failed e],
          create_failures := Suc (create_failures s)\<rparr>) = 0"
        by (simp add: creating_def)
      with inv l c p n Creating CreateResult Inl show ?thesis
        by (auto simp: lock_inv_def dest: acquiring_update)
    next
      case (Inr q)
      from creating_update [OF i, of "Acquiring q"] Creating c
      have "creating (s\<lparr>tasks := (tasks s)[i := Acquiring q]\<rparr>) = 0" by simp
      then have "creating (s\<lparr>manager := (manager s)\<lparr>pool := Some q\<rparr>, locked := False,
          tasks := (tasks s)[i := Acquiring q], pools_created := Suc (pools_created s)\<rparr>) = 0"
        by (simp add: creating_def)
      with inv l c p n no_acq Creating CreateResult Inr show ?thesis
        by (auto simp: lock_inv_def dest: acquiring_update)
    qed
  qed
next
  case (Acquiring p)
  have keep: "lock_inv (s\<lparr>tasks := (tasks s)[i := y]\<rparr>)" if "y \<noteq> Creating" "\<And>q. y \<noteq> Acquiring q" for y
  proof -
    from creating_update [OF i, of y] Acquiring that(1)
    have "creating (s\<lparr>tasks := (tasks s)[i := y]\<rparr>) = creating s" by simp
    with inv that(2) show ?thesis
      by (auto simp: lock_inv_def dest: acquiring_update)
  qed
  show ?thesis
  proof (cases out)
    case Resume
    with Acquiring inv show ?thesis by simp
  next
    case (CreateResult r)
    with Acquiring inv show ?thesis by simp
  next
    case (AcquireResult r)
    with Acquiring keep show ?thesis
      by (cases r) simp_all
  qed
next
  case (Done c)
  with inv show ?thesis by simp
next
  case (Failed e)
  with inv show ?thesis by simp
qed

lemma task_step_inv: "lock_inv s \<Longrightarrow> lock_inv (task_step s ev)"
  by (cases ev) (simp add: task_step_def pc_step_inv)

lemma run_inv: "lock_inv s \<Longrightarrow> lock_inv (run s evs)"
  by (induction evs arbitrary: s) (simp_all add: task_step_inv)

lemma start_calls_inv: "pool m = None \<Longrightarrow> lock_inv (start_calls m n)"
  by (simp add: lock_inv_def start_calls_def creating_def)


text \<open>
  One call alone, driven to its end, does what \<open>get_connection\<close> of the second section
  does: the same result and the same manager.
\<close>

lemma single_call_agrees:
  "run (start_calls m 1)
     [(0, Resume), (0, CreateResult (create_pool_r d)), (0, AcquireResult (acquire_r d))]
   = \<lparr>manager = fst (snd (get_connection d m)), locked = False,
      tasks = [case fst (get_connection d m) of Return c \<Rightarrow> Done c | Raise e \<Rightarrow> Failed e],
      create_calls = pool_creations (snd (snd (get_connection d m))),
      create_failures = (case (pool m, create_pool_r d) of (None, Inl e) \<Rightarrow> 1 | _ \<Rightarrow> 0),
      pools_created = (case (pool m, create_pool_r d) of (None, Inr p) \<Rightarrow> 1 | _ \<Rightarrow> 0)\<rparr>"
  by (cases "pool m"; cases "create_pool_r d"; cases "acquire_r d")
    (simp_all add: start_calls_def task_step_def enter_lock_def get_connection_unfold)

text \<open>
  The claim as written fails when a creation fails: of two calls started together, the
  first takes the lock and calls \<open>create_pool\<close>, the second waits for the lock; the
  creation raises, the first call leaves the lock and raises; the second call takes the
  lock, finds no pool and calls \<open>create_pool\<close> a second time.
\<close>

theorem second_creation_counterexample:
  "create_calls (run (start_calls new_mgr 2)
     [(0, Resume), (1, Resume), (0, CreateResult (Inl (Exception (lit ''timeout'')))),
      (1, Resume)]) = 2 \<and>
   tasks (run (start_calls new_mgr 2)
     [(0, Resume), (1, Resume), (0, CreateResult (Inl (Exception (lit ''timeout'')))),
      (1, Resume)]) = [Failed (Exception (lit ''timeout'')), Creating]"
  by (simp add: start_calls_def task_step_def enter_lock_def new_mgr_def numeral_2_eq_2)

text \<open>
  Claim C1, amended. For any number of \<open>get_connection\<close> calls started together on a
  manager without a pool, and any interleaving of them and any answers of the driver: at
  most one call of \<open>aiomysql.create_pool\<close> ever returns a pool; a call of \<open>create_pool\<close>
  is made only under the lock and only while there is no pool, so the calls made are the
  failed ones, the successful one and the one under way, and never more than the failed
  ones plus one; and every caller past the lock acquires from the pool the manager
  holds. A caller that gets the lock after a failed creation tries the creation again.
\<close>

theorem single_pool_creation:
  assumes "pool m = None"
  shows "pools_created (run (start_calls m n) sched) \<le> 1 \<and>
         create_calls (run (start_calls m n) sched)
           \<le> create_failures (run (start_calls m n) sched) + 1 \<and>
         (create_failures (run (start_calls m n) sched) = 0 \<longrightarrow>
            create_calls (run (start_calls m n) sched) \<le> 1) \<and>
         (\<forall>p. Acquiring p \<in> set (tasks (run (start_calls m n) sched)) \<longrightarrow>
            pool (manager (run (start_calls m n) sched)) = Some p)"
proof -
  from assms have "lock_inv (start_calls m n)"
    by (rule start_calls_inv)
  then have "lock_inv (run (start_calls m n) sched)"
    by (rule run_inv)
  then show ?thesis
    by (auto simp: lock_inv_def split: if_splits)
qed

theorem single_pool_creation_witness:
  "pools_created (run (start_calls new_mgr 3)
     [(0, Resume), (1, Resume), (2, Resume), (0, CreateResult (Inr 0)), (2, Resume),
      (1, Resume)]) \<le> 1 \<and>
   create_calls (run (start_calls new_mgr 3)
     [(0, Resume), (1, Resume), (2, Resume), (0, CreateResult (Inr 0)), (2, Resume),
      (1, Resume)]) \<le> 1 \<and>
   tasks (run (start_calls new_mgr 3)
     [(0, Resume), (1, Resume), (2, Resume), (0, CreateResult (Inr 0)), (2, Resume),
      (1, Resume)]) = [Acquiring 0, Acquiring 0, Acquiring 0]"
proof -
  let ?s = "run (start_calls new_mgr 3)
     [(0, Resume), (1, Resume), (2, Resume), (0, CreateResult (Inr 0)), (2, Resume),
      (1, Resume)]"
  have p: "pool new_mgr = None"
    by (simp add: new_mgr_def)
  have f: "create_failures ?s = 0" and t: "tasks ?s = [Acquiring 0, Acquiring 0, Acquiring 0]"
    by (simp_all add: start_calls_def task_step_def enter_lock_def new_mgr_def numeral_3_eq_3)
  from single_pool_creation [OF p, of 3
      "[(0, Resume), (1, Resume), (2, Resume), (0, CreateResult (Inr 0)), (2, Resume),
        (1, Resume)]"] f t
  show ?thesis by simp
qed

end
